theory Spec2Isabelle
  imports
    Main
    "HOL-Library.Char_ord"
    "HOL-Library.List_Lexorder"
    "HOL-Library.Product_Lexorder"
begin

section \<open>Values shared by all routes\<close>

text \<open>
  The backend stores documents in MongoDB collections through Mongoose models and answers
  each request with a status code and a JSON body. A collection is a list of documents in
  insertion order; a route is a function from the database (and the request) to the
  response and the database afterwards.

  An ObjectId is the 24-digit lower-case hexadecimal string that \<^verbatim>\<open>toString()\<close> prints.
  A string that arrives in a request (a path parameter or a body field) is cast by
  Mongoose where a query or a document needs an ObjectId: 24 hexadecimal digits are
  accepted and read without regard to case, anything else raises a CastError, which the
  route's \<^verbatim>\<open>catch\<close> turns into status 500. Dates are milliseconds since the epoch;
  \<^verbatim>\<open>new Date()\<close> is the parameter \<open>now\<close>, and the \<^verbatim>\<open>_id\<close> a new document receives
  is a parameter of the route as well.
\<close>

type_synonym oid = string
type_synonym date = nat

definition is_hex_digit :: "char \<Rightarrow> bool" where
  "is_hex_digit c = (c \<in> set ''0123456789abcdefABCDEF'')"

definition hex_lower :: "char \<Rightarrow> char" where
  "hex_lower c =
     (if c = CHR ''A'' then CHR ''a'' else if c = CHR ''B'' then CHR ''b''
      else if c = CHR ''C'' then CHR ''c'' else if c = CHR ''D'' then CHR ''d''
      else if c = CHR ''E'' then CHR ''e'' else if c = CHR ''F'' then CHR ''f'' else c)"

definition cast_oid :: "string \<Rightarrow> oid option" where
  "cast_oid s =
     (if length s = 24 \<and> list_all is_hex_digit s then Some (map hex_lower s) else None)"

text \<open>A response is the status code and the \<^verbatim>\<open>message\<close> of the JSON body, with the
  counters the like and share routes add to it.\<close>

datatype payload = NoData | LikeData bool nat | ShareData nat

record response =
  resp_status :: nat
  resp_message :: string
  resp_data :: payload

definition reply :: "nat \<Rightarrow> string \<Rightarrow> response" where
  "reply code msg = \<lparr>resp_status = code, resp_message = msg, resp_data = NoData\<rparr>"

text \<open>
  A string is the list of its code units, each below 256 (the Latin-1 range of
  JavaScript's strings); text with code units beyond that range is outside the model.
  \<^verbatim>\<open>String.prototype.trim\<close> removes the white space and line terminators, which in this
  range are the code units 9 to 13, 32 and 160.
\<close>

definition is_space :: "char \<Rightarrow> bool" where
  "is_space c =
     (c \<in> set [CHR 0x09, CHR 0x0A, CHR 0x0B, CHR 0x0C, CHR 0x0D, CHR 0x20, CHR 0xA0])"

definition trim :: "string \<Rightarrow> string" where
  "trim s = rev (dropWhile is_space (rev (dropWhile is_space s)))"

text \<open>
  \<^verbatim>\<open>findByIdAndUpdate\<close>, \<^verbatim>\<open>findOneAndUpdate\<close> and the \<^verbatim>\<open>save()\<close> of a loaded document
  write the first document the filter selects; \<^verbatim>\<open>findByIdAndDelete\<close> removes it.
  \<^verbatim>\<open>$addToSet\<close> appends a value to an array unless the array holds it already.
\<close>

fun update_first :: "('a \<Rightarrow> bool) \<Rightarrow> ('a \<Rightarrow> 'a) \<Rightarrow> 'a list \<Rightarrow> 'a list" where
  "update_first P f [] = []"
| "update_first P f (x # xs) = (if P x then f x # xs else x # update_first P f xs)"

fun remove_first :: "('a \<Rightarrow> bool) \<Rightarrow> 'a list \<Rightarrow> 'a list" where
  "remove_first P [] = []"
| "remove_first P (x # xs) = (if P x then xs else x # remove_first P xs)"

definition addToSet :: "'a list \<Rightarrow> 'a \<Rightarrow> 'a list" where
  "addToSet xs v = (if v \<in> set xs then xs else xs @ [v])"

section \<open>Documents\<close>

text \<open>
  \<^verbatim>\<open>models/User.js\<close>. Of the profile attributes only those a modelled route reads or
  writes are kept: the name, the admin flag and the three edge lists.
\<close>

record user =
  user_id :: oid
  user_name :: string
  user_isAdmin :: bool
  user_connections :: "oid list"
  user_followers :: "oid list"
  user_following :: "oid list"
  user_updatedAt :: date

text \<open>\<^verbatim>\<open>models/Connection.js\<close>.\<close>

datatype conn_status = Pending | Accepted | Declined | Blocked

record connection =
  conn_id :: oid
  conn_requester :: oid
  conn_recipient :: oid
  conn_status :: conn_status
  conn_message :: string
  conn_connectedAt :: "date option"
  conn_mutualConnections :: nat
  conn_createdAt :: date
  conn_updatedAt :: date

text \<open>\<^verbatim>\<open>models/Notification.js\<close>.\<close>

datatype notif_type =
  ConnectionRequest | ConnectionAccepted | PostLike | PostComment | PostShare
  | Mention | JobMatch | MessageReceived | ProfileView

record notification =
  notif_id :: oid
  notif_recipient :: oid
  notif_sender :: oid
  notif_type :: notif_type
  notif_title :: string
  notif_message :: string
  notif_relatedPost :: "oid option"
  notif_relatedJob :: "oid option"
  notif_relatedUser :: "oid option"
  notif_isRead :: bool
  notif_readAt :: "date option"
  notif_actionUrl :: "string option"
  notif_createdAt :: date
  notif_updatedAt :: date

text \<open>\<^verbatim>\<open>models/Post.js\<close>. The type of a post stays the string the request carried until the
  schema's enum validator has seen it.\<close>

datatype visibility = Public | Connections | Private

record link =
  link_url :: "string option"
  link_title :: "string option"
  link_description :: "string option"
  link_image :: "string option"

record comment =
  comment_id :: oid
  comment_user :: oid
  comment_content :: string
  comment_likes :: "oid list"
  comment_createdAt :: date
  comment_updatedAt :: date

record share =
  share_id :: oid
  share_user :: oid
  share_sharedAt :: date

record report =
  report_user :: oid
  report_reason :: string
  report_reportedAt :: date

record post =
  post_id :: oid
  post_author :: oid
  post_content :: string
  post_type :: string
  post_images :: "string list"
  post_link :: "link option"
  post_hashtags :: "string list"
  post_mentions :: "oid list"
  post_likes :: "oid list"
  post_comments :: "comment list"
  post_shares :: "share list"
  post_visibility :: visibility
  post_isReported :: bool
  post_reportedBy :: "report list"
  post_engagementScore :: nat
  post_createdAt :: date
  post_updatedAt :: date

text \<open>\<^verbatim>\<open>models/Job.js\<close>. The type, the experience tier and the salary period stay
  strings, as stored, for the schema's enum validators to see; the salary bounds are
  amounts no modelled route reads, kept as whole numbers.\<close>

datatype application_status = Applied | Reviewing | Shortlisted | Interviewed | Rejected | Hired

record application =
  app_id :: oid
  app_applicant :: oid
  app_coverLetter :: "string option"
  app_resumeUrl :: "string option"
  app_status :: application_status
  app_appliedAt :: date

record salary =
  salary_min :: "int option"
  salary_max :: "int option"
  salary_currency :: string
  salary_period :: string

record job =
  job_id :: oid
  job_title :: string
  job_company :: string
  job_description :: string
  job_location :: string
  job_type :: string
  job_experience :: string
  job_salary :: salary
  job_skills :: "string list"
  job_requirements :: "string list"
  job_benefits :: "string list"
  job_poster :: oid
  job_applications :: "application list"
  job_externalUrl :: "string option"
  job_companyLogo :: "string option"
  job_isActive :: bool
  job_deadline :: "date option"
  job_remote :: bool
  job_featured :: bool
  job_views :: nat
  job_createdAt :: date
  job_updatedAt :: date

text \<open>The message schema (\<^verbatim>\<open>models/Message.js\<close>). A document under construction has no conversation id yet:
  the empty string stands for the absent field, which is what \<^verbatim>\<open>!this.conversationId\<close>
  tests.\<close>

record message =
  msg_id :: oid
  msg_sender :: oid
  msg_recipient :: oid
  msg_content :: string
  msg_type :: string
  msg_fileUrl :: "string option"
  msg_fileName :: "string option"
  msg_fileSize :: "nat option"
  msg_readAt :: "date option"
  msg_conversationId :: string
  msg_createdAt :: date
  msg_updatedAt :: date

record db =
  db_users :: "user list"
  db_connections :: "connection list"
  db_posts :: "post list"
  db_jobs :: "job list"
  db_notifications :: "notification list"
  db_messages :: "message list"

section \<open>Notifications written by other routes\<close>

text \<open>
  \<^verbatim>\<open>new Notification({...}).save()\<close>: the schema bounds the title by 100 and the message
  by 300 characters and requires both; a document that fails is not written and the
  \<^verbatim>\<open>save\<close> throws.
\<close>

definition new_notification ::
  "oid \<Rightarrow> oid \<Rightarrow> oid \<Rightarrow> notif_type \<Rightarrow> string \<Rightarrow> string \<Rightarrow> date \<Rightarrow> notification" where
  "new_notification nid rcpt sndr ty title msg now =
     \<lparr>notif_id = nid, notif_recipient = rcpt, notif_sender = sndr, notif_type = ty,
      notif_title = title, notif_message = msg, notif_relatedPost = None,
      notif_relatedJob = None, notif_relatedUser = None, notif_isRead = False,
      notif_readAt = None, notif_actionUrl = None, notif_createdAt = now,
      notif_updatedAt = now\<rparr>"

definition notification_valid :: "notification \<Rightarrow> bool" where
  "notification_valid n =
     (notif_title n \<noteq> [] \<and> length (notif_title n) \<le> 100 \<and>
      notif_message n \<noteq> [] \<and> length (notif_message n) \<le> 300)"

definition save_notification :: "db \<Rightarrow> notification \<Rightarrow> db option" where
  "save_notification s n =
     (if notification_valid n
      then Some (s\<lparr>db_notifications := db_notifications s @ [n]\<rparr>) else None)"

section \<open>Connection routes\<close>

text \<open>The router of \<^verbatim>\<open>/api/connections\<close>, at the head of
  \<^verbatim>\<open>server/routes/connections.js\<close>.\<close>

text \<open>The \<^verbatim>\<open>pre('save')\<close> hook of the connection schema.\<close>

definition connection_pre_save :: "date \<Rightarrow> connection \<Rightarrow> connection" where
  "connection_pre_save now c =
     (if conn_status c = Accepted \<and> conn_connectedAt c = None
      then c\<lparr>conn_connectedAt := Some now\<rparr> else c)"

text \<open>The validator of the connection schema: the message has at most 300
  characters.\<close>

definition connection_valid :: "connection \<Rightarrow> bool" where
  "connection_valid c = (length (conn_message c) \<le> 300)"

text \<open>The filter both routes use to find the request between two accounts, in either
  direction.\<close>

definition between :: "oid \<Rightarrow> oid \<Rightarrow> connection \<Rightarrow> bool" where
  "between a b c =
     ((conn_requester c = a \<and> conn_recipient c = b) \<or>
      (conn_requester c = b \<and> conn_recipient c = a))"

text \<open>
  \<^verbatim>\<open>router.post('/request')\<close>. \<open>userId\<close> and \<open>msg\<close> are the body fields (an absent
  \<open>userId\<close> is the empty string, an absent message defaults to it), \<open>cid\<close> and \<open>nid\<close>
  the ids of the two documents the route creates. The new request is validated; the
  unique index on (requester, recipient) rejects a second document for the same ordered
  pair.
\<close>

definition send_request ::
  "db \<Rightarrow> user \<Rightarrow> string \<Rightarrow> string \<Rightarrow> oid \<Rightarrow> oid \<Rightarrow> date \<Rightarrow> response \<times> db" where
  "send_request s me userId msg cid nid now =
     (if userId = [] then (reply 400 ''User ID is required'', s)
      else if userId = user_id me then (reply 400 ''Cannot connect to yourself'', s)
      else case cast_oid userId of
        None \<Rightarrow> (reply 500 ''Error sending connection request'', s)
      | Some target \<Rightarrow>
          (case find (\<lambda>u. user_id u = target) (db_users s) of
            None \<Rightarrow> (reply 404 ''User not found'', s)
          | Some targetUser \<Rightarrow>
              (case find (between (user_id me) target) (db_connections s) of
                Some existingConnection \<Rightarrow>
                  (reply 400
                     ''Connection request already exists or you are already connected'', s)
              | None \<Rightarrow>
                  let connection =
                        \<lparr>conn_id = cid, conn_requester = user_id me, conn_recipient = target,
                         conn_status = Pending, conn_message = trim msg,
                         conn_connectedAt = None, conn_mutualConnections = 0,
                         conn_createdAt = now, conn_updatedAt = now\<rparr>
                  in if \<not> connection_valid connection \<or>
                        list_ex (\<lambda>c. conn_requester c = user_id me \<and> conn_recipient c = target)
                          (db_connections s)
                     then (reply 500 ''Error sending connection request'', s)
                     else
                       let s1 = s\<lparr>db_connections :=
                                    db_connections s @ [connection_pre_save now connection]\<rparr>
                       in case save_notification s1
                            ((new_notification nid target (user_id me) ConnectionRequest
                                ''New Connection Request''
                                (user_name me @ '' wants to connect with you'') now)
                              \<lparr>notif_relatedUser := Some (user_id me)\<rparr>) of
                            None \<Rightarrow> (reply 500 ''Error sending connection request'', s1)
                          | Some s2 \<Rightarrow>
                              (reply 201 ''Connection request sent successfully'', s2))))"

text \<open>
  \<^verbatim>\<open>router.put('/request/:id/:action')\<close>. The loaded request is written back by
  \<^verbatim>\<open>connection.save()\<close>, which validates the whole document against the schema (the
  message is bounded by 300 characters) before the hook runs and throws, writing nothing,
  when it fails; the two \<^verbatim>\<open>findByIdAndUpdate\<close> calls add each account to the other's
  connections, without validation; an account that is gone is silently skipped by the
  update.
\<close>

definition write_connection :: "db \<Rightarrow> connection \<Rightarrow> date \<Rightarrow> db" where
  "write_connection s c now =
     s\<lparr>db_connections :=
         update_first (\<lambda>d. conn_id d = conn_id c)
           (\<lambda>_. (connection_pre_save now c)\<lparr>conn_updatedAt := now\<rparr>) (db_connections s)\<rparr>"

definition save_connection :: "db \<Rightarrow> connection \<Rightarrow> date \<Rightarrow> db option" where
  "save_connection s c now =
     (if \<not> connection_valid c then None else Some (write_connection s c now))"

definition add_connection :: "db \<Rightarrow> oid \<Rightarrow> oid \<Rightarrow> date \<Rightarrow> db" where
  "add_connection s uid other now =
     s\<lparr>db_users :=
         update_first (\<lambda>u. user_id u = uid)
           (\<lambda>u. u\<lparr>user_connections := addToSet (user_connections u) other,
                   user_updatedAt := now\<rparr>) (db_users s)\<rparr>"

definition process_request ::
  "db \<Rightarrow> user \<Rightarrow> string \<Rightarrow> string \<Rightarrow> oid \<Rightarrow> date \<Rightarrow> response \<times> db" where
  "process_request s me rid action nid now =
     (if action \<notin> set [''accept'', ''decline''] then (reply 400 ''Invalid action'', s)
      else case cast_oid rid of
        None \<Rightarrow> (reply 500 ''Error processing connection request'', s)
      | Some cid \<Rightarrow>
          (case find (\<lambda>c. conn_id c = cid) (db_connections s) of
            None \<Rightarrow> (reply 404 ''Connection request not found'', s)
          | Some connection \<Rightarrow>
              if conn_recipient connection \<noteq> user_id me then (reply 403 ''Not authorized'', s)
              else if conn_status connection \<noteq> Pending
              then (reply 400 ''Connection request already processed'', s)
              else if action = ''accept'' then
                (case save_connection s (connection\<lparr>conn_status := Accepted\<rparr>) now of
                  None \<Rightarrow> (reply 500 ''Error processing connection request'', s)
                | Some s1 \<Rightarrow>
                    let s2 = add_connection s1 (conn_requester connection)
                               (conn_recipient connection) now;
                        s3 = add_connection s2 (conn_recipient connection)
                               (conn_requester connection) now
                    in case save_notification s3
                         ((new_notification nid (conn_requester connection) (user_id me)
                             ConnectionAccepted ''Connection Accepted''
                             (user_name me @ '' accepted your connection request'') now)
                           \<lparr>notif_relatedUser := Some (user_id me)\<rparr>) of
                         None \<Rightarrow> (reply 500 ''Error processing connection request'', s3)
                       | Some s4 \<Rightarrow> (reply 200 ''Connection request accepted'', s4))
              else
                (case save_connection s (connection\<lparr>conn_status := Declined\<rparr>) now of
                  None \<Rightarrow> (reply 500 ''Error processing connection request'', s)
                | Some s1 \<Rightarrow> (reply 200 ''Connection request declined'', s1))))"

section \<open>Post routes\<close>

text \<open>The router of \<^verbatim>\<open>/api/posts\<close>, the third router in
  \<^verbatim>\<open>server/routes/connections.js\<close>.\<close>

text \<open>\<^verbatim>\<open>String.prototype.toLowerCase\<close>: below 256 the letters with a lower case are
  \<^verbatim>\<open>A\<close> to \<^verbatim>\<open>Z\<close> and the code units 192 to 222 without 215, each 32 below its lower
  case.\<close>

definition upper_case :: "char list" where
  "upper_case =
     ''ABCDEFGHIJKLMNOPQRSTUVWXYZ'' @
     [CHR 0xC0, CHR 0xC1, CHR 0xC2, CHR 0xC3, CHR 0xC4, CHR 0xC5, CHR 0xC6, CHR 0xC7,
      CHR 0xC8, CHR 0xC9, CHR 0xCA, CHR 0xCB, CHR 0xCC, CHR 0xCD, CHR 0xCE, CHR 0xCF,
      CHR 0xD0, CHR 0xD1, CHR 0xD2, CHR 0xD3, CHR 0xD4, CHR 0xD5, CHR 0xD6, CHR 0xD8,
      CHR 0xD9, CHR 0xDA, CHR 0xDB, CHR 0xDC, CHR 0xDD, CHR 0xDE]"

definition lower_case :: "char list" where
  "lower_case =
     ''abcdefghijklmnopqrstuvwxyz'' @
     [CHR 0xE0, CHR 0xE1, CHR 0xE2, CHR 0xE3, CHR 0xE4, CHR 0xE5, CHR 0xE6, CHR 0xE7,
      CHR 0xE8, CHR 0xE9, CHR 0xEA, CHR 0xEB, CHR 0xEC, CHR 0xED, CHR 0xEE, CHR 0xEF,
      CHR 0xF0, CHR 0xF1, CHR 0xF2, CHR 0xF3, CHR 0xF4, CHR 0xF5, CHR 0xF6, CHR 0xF8,
      CHR 0xF9, CHR 0xFA, CHR 0xFB, CHR 0xFC, CHR 0xFD, CHR 0xFE]"

definition to_lower :: "char \<Rightarrow> char" where
  "to_lower c = (case map_of (zip upper_case lower_case) c of Some l \<Rightarrow> l | None \<Rightarrow> c)"

definition toLowerCase :: "string \<Rightarrow> string" where
  "toLowerCase s = map to_lower s"

text \<open>The \<^verbatim>\<open>pre('save')\<close> hook of the post schema, and the validators of the schema:
  the content of a post (required, at most 3000 characters), its type (one of the enum)
  and the content of each of its comments (required, at most 500 characters).\<close>

definition post_pre_save :: "post \<Rightarrow> post" where
  "post_pre_save p =
     p\<lparr>post_engagementScore :=
         length (post_likes p) + length (post_comments p) + length (post_shares p) * 2\<rparr>"

definition comment_valid :: "comment \<Rightarrow> bool" where
  "comment_valid c = (comment_content c \<noteq> [] \<and> length (comment_content c) \<le> 500)"

definition post_valid :: "post \<Rightarrow> bool" where
  "post_valid p =
     (post_content p \<noteq> [] \<and> length (post_content p) \<le> 3000 \<and>
      post_type p \<in> set [''text'', ''image'', ''link'', ''job_share''] \<and>
      list_all comment_valid (post_comments p))"

text \<open>\<^verbatim>\<open>post.save()\<close> on a loaded post: the whole document is validated; when it
  passes, the hook runs and the stored document is replaced; when it fails, the
  \<^verbatim>\<open>save\<close> throws and nothing is written.\<close>

definition write_post :: "db \<Rightarrow> post \<Rightarrow> date \<Rightarrow> db" where
  "write_post s p now =
     s\<lparr>db_posts :=
         update_first (\<lambda>q. post_id q = post_id p)
           (\<lambda>_. (post_pre_save p)\<lparr>post_updatedAt := now\<rparr>) (db_posts s)\<rparr>"

definition save_post :: "db \<Rightarrow> post \<Rightarrow> date \<Rightarrow> db option" where
  "save_post s p now = (if \<not> post_valid p then None else Some (write_post s p now))"

text \<open>\<^verbatim>\<open>router.post('/')\<close>. The body fields are \<open>content\<close> (empty when absent),
  \<open>type\<close> (\<^verbatim>\<open>'text'\<close> when absent), \<open>images\<close>, \<open>link\<close> and \<open>hashtags\<close>; the
  visibility is the schema's default.\<close>

definition create_post ::
  "db \<Rightarrow> user \<Rightarrow> string \<Rightarrow> string \<Rightarrow> string list \<Rightarrow> link option \<Rightarrow> string list \<Rightarrow>
     oid \<Rightarrow> date \<Rightarrow> response \<times> db" where
  "create_post s me content type images lnk hashtags pid now =
     (if content = [] \<or> length (trim content) = 0
      then (reply 400 ''Post content is required'', s)
      else
        let post =
              \<lparr>post_id = pid, post_author = user_id me, post_content = trim content,
               post_type = type, post_images = images, post_link = lnk,
               post_hashtags = map toLowerCase hashtags, post_mentions = [],
               post_likes = [], post_comments = [], post_shares = [],
               post_visibility = Public, post_isReported = False, post_reportedBy = [],
               post_engagementScore = 0, post_createdAt = now, post_updatedAt = now\<rparr>
        in if \<not> post_valid post then (reply 500 ''Error creating post'', s)
           else (reply 201 ''Post created successfully'',
                 s\<lparr>db_posts := db_posts s @ [post_pre_save post]\<rparr>))"

text \<open>The notification the like, comment and share routes write when the actor is not
  the author of the post.\<close>

definition notify_author ::
  "db \<Rightarrow> user \<Rightarrow> post \<Rightarrow> notif_type \<Rightarrow> string \<Rightarrow> string \<Rightarrow> oid \<Rightarrow> date \<Rightarrow> db option" where
  "notify_author s me p ty title verb nid now =
     (if post_author p \<noteq> user_id me
      then save_notification s
             ((new_notification nid (post_author p) (user_id me) ty title
                 (user_name me @ verb) now)\<lparr>notif_relatedPost := Some (post_id p)\<rparr>)
      else Some s)"

text \<open>\<^verbatim>\<open>router.post('/:id/like')\<close>.\<close>

definition like_post :: "db \<Rightarrow> user \<Rightarrow> string \<Rightarrow> oid \<Rightarrow> date \<Rightarrow> response \<times> db" where
  "like_post s me pidstr nid now =
     (case cast_oid pidstr of
        None \<Rightarrow> (reply 500 ''Error updating like status'', s)
      | Some pid \<Rightarrow>
          (case find (\<lambda>p. post_id p = pid) (db_posts s) of
            None \<Rightarrow> (reply 404 ''Post not found'', s)
          | Some post \<Rightarrow>
              if user_id me \<in> set (post_likes post) then
                let post' = post\<lparr>post_likes := filter (\<lambda>i. i \<noteq> user_id me) (post_likes post)\<rparr>
                in case save_post s post' now of
                     None \<Rightarrow> (reply 500 ''Error updating like status'', s)
                   | Some s1 \<Rightarrow>
                       ((reply 200 ''Post unliked'')
                          \<lparr>resp_data := LikeData False (length (post_likes post'))\<rparr>, s1)
              else
                let post' = post\<lparr>post_likes := post_likes post @ [user_id me]\<rparr>
                in case save_post s post' now of
                     None \<Rightarrow> (reply 500 ''Error updating like status'', s)
                   | Some s1 \<Rightarrow>
                       (case notify_author s1 me post' PostLike ''Post Liked''
                               '' liked your post'' nid now of
                          None \<Rightarrow> (reply 500 ''Error updating like status'', s1)
                        | Some s2 \<Rightarrow>
                            ((reply 200 ''Post liked'')
                               \<lparr>resp_data := LikeData True (length (post_likes post'))\<rparr>,
                             s2))))"

text \<open>\<^verbatim>\<open>router.post('/:id/comment')\<close>; \<open>cmid\<close> is the id of the new sub-document.\<close>

definition comment_post ::
  "db \<Rightarrow> user \<Rightarrow> string \<Rightarrow> string \<Rightarrow> oid \<Rightarrow> oid \<Rightarrow> date \<Rightarrow> response \<times> db" where
  "comment_post s me pidstr content cmid nid now =
     (if content = [] \<or> length (trim content) = 0
      then (reply 400 ''Comment content is required'', s)
      else case cast_oid pidstr of
        None \<Rightarrow> (reply 500 ''Error adding comment'', s)
      | Some pid \<Rightarrow>
          (case find (\<lambda>p. post_id p = pid) (db_posts s) of
            None \<Rightarrow> (reply 404 ''Post not found'', s)
          | Some post \<Rightarrow>
              let newComment =
                    \<lparr>comment_id = cmid, comment_user = user_id me,
                     comment_content = trim content, comment_likes = [],
                     comment_createdAt = now, comment_updatedAt = now\<rparr>;
                  post' = post\<lparr>post_comments := post_comments post @ [newComment]\<rparr>
              in case save_post s post' now of
                   None \<Rightarrow> (reply 500 ''Error adding comment'', s)
                 | Some s1 \<Rightarrow>
                     (case notify_author s1 me post' PostComment ''New Comment''
                             '' commented on your post'' nid now of
                        None \<Rightarrow> (reply 500 ''Error adding comment'', s1)
                      | Some s2 \<Rightarrow> (reply 200 ''Comment added successfully'', s2))))"

text \<open>\<^verbatim>\<open>router.post('/:id/share')\<close>; \<open>shid\<close> is the id of the new sub-document.\<close>

definition share_post :: "db \<Rightarrow> user \<Rightarrow> string \<Rightarrow> oid \<Rightarrow> oid \<Rightarrow> date \<Rightarrow> response \<times> db" where
  "share_post s me pidstr shid nid now =
     (case cast_oid pidstr of
        None \<Rightarrow> (reply 500 ''Error sharing post'', s)
      | Some pid \<Rightarrow>
          (case find (\<lambda>p. post_id p = pid) (db_posts s) of
            None \<Rightarrow> (reply 404 ''Post not found'', s)
          | Some post \<Rightarrow>
              (case find (\<lambda>sh. share_user sh = user_id me) (post_shares post) of
                Some existingShare \<Rightarrow> (reply 400 ''Post already shared'', s)
              | None \<Rightarrow>
                  let post' = post\<lparr>post_shares := post_shares post @
                                 [\<lparr>share_id = shid, share_user = user_id me,
                                   share_sharedAt = now\<rparr>]\<rparr>
                  in case save_post s post' now of
                       None \<Rightarrow> (reply 500 ''Error sharing post'', s)
                     | Some s1 \<Rightarrow>
                         (case notify_author s1 me post' PostShare ''Post Shared''
                                 '' shared your post'' nid now of
                            None \<Rightarrow> (reply 500 ''Error sharing post'', s1)
                          | Some s2 \<Rightarrow>
                              ((reply 200 ''Post shared successfully'')
                                 \<lparr>resp_data := ShareData (length (post_shares post'))\<rparr>,
                               s2)))))"

text \<open>
  \<^verbatim>\<open>router.get('/feed')\<close>. The query selects the posts of the accounts in
  \<open>feedUserIds\<close> or with an engagement score of at least 10, among those visible to the
  public or to connections, and sorts them by creation time and then engagement score,
  both descending; posts that agree on both keys stay in collection order. The window is
  \<open>limit\<close> posts after skipping \<open>(page - 1) * limit\<close>: the database refuses a negative
  skip, and reads a limit of 0 as no limit, \<^verbatim>\<open>Math.ceil(total / 0)\<close> then not being a
  number of pages.
\<close>

definition feed_filter :: "oid list \<Rightarrow> post \<Rightarrow> bool" where
  "feed_filter feedUserIds p =
     ((post_author p \<in> set feedUserIds \<or> 10 \<le> post_engagementScore p) \<and>
      post_visibility p \<in> set [Public, Connections])"

definition feed_sort :: "post list \<Rightarrow> post list" where
  "feed_sort ps =
     sort_key (\<lambda>p. (- int (post_createdAt p), - int (post_engagementScore p))) ps"

definition window :: "nat \<Rightarrow> nat \<Rightarrow> 'a list \<Rightarrow> 'a list" where
  "window skip limit xs = (if limit = 0 then drop skip xs else take limit (drop skip xs))"

record feed_reply =
  feed_posts :: "post list"
  feed_totalPages :: "nat option"
  feed_currentPage :: nat

definition feed_query :: "db \<Rightarrow> oid list \<Rightarrow> post list" where
  "feed_query s feedUserIds = feed_sort (filter (feed_filter feedUserIds) (db_posts s))"

definition get_feed :: "db \<Rightarrow> user \<Rightarrow> nat \<Rightarrow> nat \<Rightarrow> response + feed_reply" where
  "get_feed s me page limit =
     (case find (\<lambda>u. user_id u = user_id me) (db_users s) of
        None \<Rightarrow> Inl (reply 500 ''Error fetching feed'')
      | Some currentUser \<Rightarrow>
          let feedUserIds =
                user_connections currentUser @ user_following currentUser @ [user_id me]
          in if page = 0 \<and> 0 < limit then Inl (reply 500 ''Error fetching feed'')
             else
               Inr \<lparr>feed_posts = window ((page - 1) * limit) limit (feed_query s feedUserIds),
                    feed_totalPages =
                      (if limit = 0 then None
                       else Some ((length (feed_query s feedUserIds) + limit - 1) div limit)),
                    feed_currentPage = page\<rparr>)"

section \<open>Hashtag extraction\<close>

text \<open>\<open>extractHashtags\<close> of \<^verbatim>\<open>pages/Posts/CreatePostPage.tsx\<close> (and, word for word,
  of \<^verbatim>\<open>components/Posts/CreatePostModal.tsx\<close>).\<close>

text \<open>
  \<^verbatim>\<open>text.match(/#(\w+)/g)\<close> scans the text from the left: at a \<^verbatim>\<open>#\<close> followed by at
  least one word character the match is the \<^verbatim>\<open>#\<close> with the longest run of word
  characters, and the scan resumes behind it; anywhere else it moves on by one
  character. \<open>extractHashtags\<close> drops the \<^verbatim>\<open>#\<close> of each match and lowers its case.
\<close>

definition is_word_char :: "char \<Rightarrow> bool" where
  "is_word_char c =
     ((CHR ''a'' \<le> c \<and> c \<le> CHR ''z'') \<or> (CHR ''A'' \<le> c \<and> c \<le> CHR ''Z'') \<or>
      (CHR ''0'' \<le> c \<and> c \<le> CHR ''9'') \<or> c = CHR ''_'')"

function match_hashtags :: "string \<Rightarrow> string list" where
  "match_hashtags [] = []"
| "match_hashtags (c # cs) =
     (if c = CHR ''#'' \<and> takeWhile is_word_char cs \<noteq> []
      then (c # takeWhile is_word_char cs) # match_hashtags (dropWhile is_word_char cs)
      else match_hashtags cs)"
  by pat_completeness auto
termination
  by (relation "measure length") (auto simp: length_dropWhile_le less_Suc_eq_le)

definition extractHashtags :: "string \<Rightarrow> string list" where
  "extractHashtags text = map (\<lambda>tag. toLowerCase (drop 1 tag)) (match_hashtags text)"

section \<open>Job applications\<close>

text \<open>The apply route of \<^verbatim>\<open>server/routes/jobs.js\<close>.\<close>

text \<open>The validators of the job schema: title, company, description and location are
  required and bounded by 100, 100, 5000 and 100 characters; type and experience are
  required and of their enums; the salary period is of its enum; a skill has at most 50,
  a requirement at most 200 and a benefit at most 100 characters. \<^verbatim>\<open>job.save()\<close> on a
  loaded job validates the whole document and throws, writing nothing, when it fails.\<close>

definition job_valid :: "job \<Rightarrow> bool" where
  "job_valid j =
     (job_title j \<noteq> [] \<and> length (job_title j) \<le> 100 \<and>
      job_company j \<noteq> [] \<and> length (job_company j) \<le> 100 \<and>
      job_description j \<noteq> [] \<and> length (job_description j) \<le> 5000 \<and>
      job_location j \<noteq> [] \<and> length (job_location j) \<le> 100 \<and>
      job_type j \<in> set [''full-time'', ''part-time'', ''contract'', ''internship'',
                          ''freelance''] \<and>
      job_experience j \<in> set [''entry'', ''mid'', ''senior'', ''executive''] \<and>
      salary_period (job_salary j) \<in> set [''hourly'', ''daily'', ''monthly'', ''yearly''] \<and>
      list_all (\<lambda>x. length x \<le> 50) (job_skills j) \<and>
      list_all (\<lambda>x. length x \<le> 200) (job_requirements j) \<and>
      list_all (\<lambda>x. length x \<le> 100) (job_benefits j))"

definition write_job :: "db \<Rightarrow> job \<Rightarrow> date \<Rightarrow> db" where
  "write_job s j now =
     s\<lparr>db_jobs :=
         update_first (\<lambda>d. job_id d = job_id j) (\<lambda>_. j\<lparr>job_updatedAt := now\<rparr>) (db_jobs s)\<rparr>"

definition save_job :: "db \<Rightarrow> job \<Rightarrow> date \<Rightarrow> db option" where
  "save_job s j now = (if \<not> job_valid j then None else Some (write_job s j now))"

text \<open>\<^verbatim>\<open>router.post('/:id/apply')\<close>; \<open>aid\<close> is the id of the new application.\<close>

definition apply_job ::
  "db \<Rightarrow> user \<Rightarrow> string \<Rightarrow> string option \<Rightarrow> string option \<Rightarrow> oid \<Rightarrow> oid \<Rightarrow> date \<Rightarrow>
     response \<times> db" where
  "apply_job s me jidstr coverLetter resumeUrl aid nid now =
     (case cast_oid jidstr of
        None \<Rightarrow> (reply 500 ''Error submitting application'', s)
      | Some jid \<Rightarrow>
          (case find (\<lambda>j. job_id j = jid) (db_jobs s) of
            None \<Rightarrow> (reply 404 ''Job not found'', s)
          | Some job \<Rightarrow>
              if \<not> job_isActive job
              then (reply 400 ''Job posting is no longer active'', s)
              else
                (case find (\<lambda>app. app_applicant app = user_id me) (job_applications job) of
                  Some existingApplication \<Rightarrow>
                    (reply 400 ''You have already applied to this job'', s)
                | None \<Rightarrow>
                    let job' = job\<lparr>job_applications := job_applications job @
                                  [\<lparr>app_id = aid, app_applicant = user_id me,
                                    app_coverLetter = coverLetter, app_resumeUrl = resumeUrl,
                                    app_status = Applied, app_appliedAt = now\<rparr>]\<rparr>
                    in case save_job s job' now of
                         None \<Rightarrow> (reply 500 ''Error submitting application'', s)
                       | Some s1 \<Rightarrow>
                           (case save_notification s1
                              ((new_notification nid (job_poster job) (user_id me) JobMatch
                                  ''New Job Application''
                                  (user_name me @ '' applied to your job: '' @ job_title job)
                                  now)
                                \<lparr>notif_relatedJob := Some (job_id job),
                                  notif_relatedUser := Some (user_id me)\<rparr>) of
                              None \<Rightarrow> (reply 500 ''Error submitting application'', s1)
                            | Some s2 \<Rightarrow>
                                (reply 200 ''Application submitted successfully'', s2)))))"

section \<open>Notification routes\<close>

text \<open>The router of \<^verbatim>\<open>/api/notifications\<close>, at the head of
  \<^verbatim>\<open>server/routes/notifications.js\<close>.\<close>

text \<open>Numbers in a template string print in decimal.\<close>

definition digit_char :: "nat \<Rightarrow> char" where
  "digit_char d = ''0123456789'' ! d"

function show_nat :: "nat \<Rightarrow> string" where
  "show_nat n = (if n < 10 then [digit_char n] else show_nat (n div 10) @ [digit_char (n mod 10)])"
  by pat_completeness auto
termination
  by (relation "measure id") auto

declare show_nat.simps [simp del]

text \<open>\<^verbatim>\<open>router.delete('/:id')\<close> and \<^verbatim>\<open>router.delete('/clear-all')\<close>.\<close>

definition delete_notification :: "db \<Rightarrow> user \<Rightarrow> string \<Rightarrow> response \<times> db" where
  "delete_notification s me idstr =
     (case cast_oid idstr of
        None \<Rightarrow> (reply 500 ''Error deleting notification'', s)
      | Some nid \<Rightarrow>
          (case find (\<lambda>n. notif_id n = nid) (db_notifications s) of
            None \<Rightarrow> (reply 404 ''Notification not found'', s)
          | Some notification \<Rightarrow>
              if notif_recipient notification \<noteq> user_id me
              then (reply 403 ''Not authorized'', s)
              else (reply 200 ''Notification deleted'',
                    s\<lparr>db_notifications :=
                        remove_first (\<lambda>n. notif_id n = nid) (db_notifications s)\<rparr>)))"

definition clear_all :: "db \<Rightarrow> user \<Rightarrow> response \<times> db" where
  "clear_all s me =
     (let deletedCount =
            length (filter (\<lambda>n. notif_recipient n = user_id me) (db_notifications s))
      in (reply 200 (''Deleted '' @ show_nat deletedCount @ '' notifications''),
          s\<lparr>db_notifications :=
              filter (\<lambda>n. notif_recipient n \<noteq> user_id me) (db_notifications s)\<rparr>))"

text \<open>
  The router tries its routes in the order of registration and runs the handler of the
  first whose method and path pattern match the request; neither handler passes the
  request on. Both \<^verbatim>\<open>DELETE\<close> routes have a pattern of one path segment: \<^verbatim>\<open>/:id\<close>
  matches any segment, \<^verbatim>\<open>/clear-all\<close> that segment only. \<open>dispatch_delete\<close> is the
  router on a \<^verbatim>\<open>DELETE\<close> request whose path below the mount point is the one segment
  \<open>seg\<close>; without a matching route the application answers 404.
\<close>

datatype pattern = Param | Literal string

datatype delete_handler = DeleteById | ClearAll

fun pattern_matches :: "pattern \<Rightarrow> string \<Rightarrow> bool" where
  "pattern_matches Param seg = (seg \<noteq> [] \<and> CHR ''/'' \<notin> set seg)"
| "pattern_matches (Literal l) seg = (seg = l)"

definition delete_routes :: "(pattern \<times> delete_handler) list" where
  "delete_routes = [(Param, DeleteById), (Literal ''clear-all'', ClearAll)]"

definition dispatch_delete :: "db \<Rightarrow> user \<Rightarrow> string \<Rightarrow> response \<times> db" where
  "dispatch_delete s me seg =
     (case find (\<lambda>(pat, h). pattern_matches pat seg) delete_routes of
        None \<Rightarrow> (reply 404 ''Not Found'', s)
      | Some (pat, DeleteById) \<Rightarrow> delete_notification s me seg
      | Some (pat, ClearAll) \<Rightarrow> clear_all s me)"

section \<open>Messages\<close>

text \<open>The message schema and the router of \<^verbatim>\<open>/api/messages\<close>, the second router in
  \<^verbatim>\<open>server/routes/notifications.js\<close>.\<close>

text \<open>\<^verbatim>\<open>Array.prototype.join\<close>; \<^verbatim>\<open>Array.prototype.sort\<close> without a comparator orders
  strings by their code units, which is \<open>sort\<close> on \<open>string\<close>.\<close>

fun join :: "string \<Rightarrow> string list \<Rightarrow> string" where
  "join sep [] = []"
| "join sep [x] = x"
| "join sep (x # y # ys) = x @ sep @ join sep (y # ys)"

text \<open>The \<^verbatim>\<open>pre('save')\<close> hook of the message schema, and the document the send route
  hands to \<^verbatim>\<open>save()\<close>: it sets the sender, the recipient, the content and the type, and
  no conversation id.\<close>

definition message_pre_save :: "message \<Rightarrow> message" where
  "message_pre_save m =
     (if msg_conversationId m = []
      then m\<lparr>msg_conversationId := join ''_'' (sort [msg_sender m, msg_recipient m])\<rparr>
      else m)"

definition new_message :: "oid \<Rightarrow> user \<Rightarrow> oid \<Rightarrow> string \<Rightarrow> string \<Rightarrow> date \<Rightarrow> message" where
  "new_message mid me recipient content type now =
     \<lparr>msg_id = mid, msg_sender = user_id me, msg_recipient = recipient,
      msg_content = content, msg_type = type, msg_fileUrl = None, msg_fileName = None,
      msg_fileSize = None, msg_readAt = None, msg_conversationId = [],
      msg_createdAt = now, msg_updatedAt = now\<rparr>"

text \<open>
  The validators of the message schema: the content is required and bounded by 1000
  characters, the type is of its enum, and the conversation id is required.
  \<^verbatim>\<open>message.save()\<close> validates the document first, in the hook Mongoose itself puts
  ahead of the schema's own \<^verbatim>\<open>pre('save')\<close> hooks; a document that fails is not written,
  the schema's hook does not run and the \<^verbatim>\<open>save\<close> throws.
\<close>

definition message_valid :: "message \<Rightarrow> bool" where
  "message_valid m =
     (msg_content m \<noteq> [] \<and> length (msg_content m) \<le> 1000 \<and>
      msg_type m \<in> set [''text'', ''image'', ''file''] \<and> msg_conversationId m \<noteq> [])"

definition save_message :: "db \<Rightarrow> message \<Rightarrow> db option" where
  "save_message s m =
     (if \<not> message_valid m then None
      else Some (s\<lparr>db_messages := db_messages s @ [message_pre_save m]\<rparr>))"

text \<open>\<^verbatim>\<open>router.post('/')\<close>, the send route. The body fields are \<open>recipient\<close> and
  \<open>content\<close> (empty when absent) and \<open>type\<close> (\<^verbatim>\<open>'text'\<close> when absent); \<open>mid\<close> is
  the id of the new message. The route answers with an error reply or, with status 201,
  with the stored message.\<close>

definition send_message ::
  "db \<Rightarrow> user \<Rightarrow> string \<Rightarrow> string \<Rightarrow> string \<Rightarrow> oid \<Rightarrow> date \<Rightarrow>
     (response + message) \<times> db" where
  "send_message s me recipient content type mid now =
     (if recipient = [] \<or> content = []
      then (Inl (reply 400 ''Recipient and content are required''), s)
      else case cast_oid recipient of
        None \<Rightarrow> (Inl (reply 500 ''Error sending message''), s)
      | Some rid \<Rightarrow>
          (case find (\<lambda>u. user_id u = rid) (db_users s) of
            None \<Rightarrow> (Inl (reply 404 ''Recipient not found''), s)
          | Some recipientUser \<Rightarrow>
              (case save_message s (new_message mid me rid content type now) of
                None \<Rightarrow> (Inl (reply 500 ''Error sending message''), s)
              | Some s1 \<Rightarrow>
                  (Inr (message_pre_save (new_message mid me rid content type now)), s1))))"

text \<open>The conversation id as the specification words it: the two participant ids in
  lexicographic order, joined by an underscore.\<close>

definition spec_conversationId :: "oid \<Rightarrow> oid \<Rightarrow> string" where
  "spec_conversationId a b = (if a \<le> b then a @ ''_'' @ b else b @ ''_'' @ a)"

text \<open>
  The \<^verbatim>\<open>updateMany\<close> of the conversation and mark-read routes: with the schema's
  \<^verbatim>\<open>timestamps\<close> option an update stamps \<^verbatim>\<open>updatedAt\<close> on the documents it writes.
\<close>

definition unread_for :: "oid \<Rightarrow> string \<Rightarrow> message \<Rightarrow> bool" where
  "unread_for uid conversationId m =
     (msg_conversationId m = conversationId \<and> msg_recipient m = uid \<and> msg_readAt m = None)"

definition mark_messages_read :: "db \<Rightarrow> oid \<Rightarrow> string \<Rightarrow> date \<Rightarrow> db" where
  "mark_messages_read s uid conversationId now =
     s\<lparr>db_messages :=
         map (\<lambda>m. if unread_for uid conversationId m
                  then m\<lparr>msg_readAt := Some now, msg_updatedAt := now\<rparr> else m)
           (db_messages s)\<rparr>"

text \<open>\<^verbatim>\<open>router.get('/conversation/:userId')\<close>: the page of the conversation, oldest
  message first, as read before the update, and the conversation id.\<close>

record conversation_reply =
  conv_messages :: "message list"
  conv_conversationId :: string

definition get_conversation ::
  "db \<Rightarrow> user \<Rightarrow> string \<Rightarrow> nat \<Rightarrow> nat \<Rightarrow> date \<Rightarrow> (response + conversation_reply) \<times> db" where
  "get_conversation s me userId page limit now =
     (let conversationId = join ''_'' (sort [user_id me, userId]);
          found = sort_key (\<lambda>m. - int (msg_createdAt m))
                    (filter (\<lambda>m. msg_conversationId m = conversationId) (db_messages s))
      in if page = 0 \<and> 0 < limit then (Inl (reply 500 ''Error fetching conversation''), s)
         else
           (Inr \<lparr>conv_messages = rev (window ((page - 1) * limit) limit found),
                 conv_conversationId = conversationId\<rparr>,
            mark_messages_read s (user_id me) conversationId now))"

text \<open>\<^verbatim>\<open>router.put('/read/:conversationId')\<close>.\<close>

definition mark_read :: "db \<Rightarrow> user \<Rightarrow> string \<Rightarrow> date \<Rightarrow> response \<times> db" where
  "mark_read s me conversationId now =
     (reply 200 ''Messages marked as read'',
      mark_messages_read s (user_id me) conversationId now)"

section \<open>The engagement score as specified\<close>

text \<open>The score of a post as the specification words it: its likes plus its comments
  plus twice its shares.\<close>

definition spec_engagementScore :: "post \<Rightarrow> nat" where
  "spec_engagementScore p =
     length (post_likes p) + length (post_comments p) + 2 * length (post_shares p)"

section \<open>Example data\<close>

text \<open>Two accounts, a connection request from the first to the second, and the database
  before and after the second account has accepted it.\<close>

definition alice_id :: oid where "alice_id = ''aaaaaaaaaaaaaaaaaaaaaaaa''"
definition bob_id :: oid where "bob_id = ''bbbbbbbbbbbbbbbbbbbbbbbb''"
definition req_id :: oid where "req_id = ''cccccccccccccccccccccc01''"
definition fresh_id :: oid where "fresh_id = ''ffffffffffffffffffffff01''"
definition fresh_id2 :: oid where "fresh_id2 = ''ffffffffffffffffffffff02''"

definition alice :: user where
  "alice = \<lparr>user_id = alice_id, user_name = ''Alice'', user_isAdmin = False,
     user_connections = [], user_followers = [], user_following = [], user_updatedAt = 1\<rparr>"

definition bob :: user where
  "bob = \<lparr>user_id = bob_id, user_name = ''Bob'', user_isAdmin = False,
     user_connections = [], user_followers = [], user_following = [], user_updatedAt = 2\<rparr>"

definition pending_req :: connection where
  "pending_req = \<lparr>conn_id = req_id, conn_requester = alice_id, conn_recipient = bob_id,
     conn_status = Pending, conn_message = ''Lets connect'', conn_connectedAt = None,
     conn_mutualConnections = 0, conn_createdAt = 3, conn_updatedAt = 3\<rparr>"

definition accepted_req :: connection where
  "accepted_req = pending_req\<lparr>conn_status := Accepted, conn_connectedAt := Some 4,
     conn_updatedAt := 4\<rparr>"

definition db_empty :: db where
  "db_empty = \<lparr>db_users = [alice, bob], db_connections = [], db_posts = [], db_jobs = [],
     db_notifications = [], db_messages = []\<rparr>"

definition db_pending :: db where
  "db_pending = db_empty\<lparr>db_connections := [pending_req]\<rparr>"

definition db_accepted :: db where
  "db_accepted =
     db_empty\<lparr>db_users := [alice\<lparr>user_connections := [bob_id]\<rparr>,
                             bob\<lparr>user_connections := [alice_id]\<rparr>],
              db_connections := [accepted_req]\<rparr>"

text \<open>Two unread messages: one from the first account to the second, and one the first
  account sent to itself.\<close>

definition msg_to_bob :: message where
  "msg_to_bob = \<lparr>msg_id = ''dddddddddddddddddddddd01'', msg_sender = alice_id,
     msg_recipient = bob_id, msg_content = ''Hello Bob'', msg_type = ''text'',
     msg_fileUrl = None, msg_fileName = None, msg_fileSize = None, msg_readAt = None,
     msg_conversationId = ''aaaaaaaaaaaaaaaaaaaaaaaa_bbbbbbbbbbbbbbbbbbbbbbbb'',
     msg_createdAt = 5, msg_updatedAt = 5\<rparr>"

definition msg_to_self :: message where
  "msg_to_self = \<lparr>msg_id = ''dddddddddddddddddddddd02'', msg_sender = alice_id,
     msg_recipient = alice_id, msg_content = ''Note to self'', msg_type = ''text'',
     msg_fileUrl = None, msg_fileName = None, msg_fileSize = None, msg_readAt = None,
     msg_conversationId = ''aaaaaaaaaaaaaaaaaaaaaaaa_aaaaaaaaaaaaaaaaaaaaaaaa'',
     msg_createdAt = 6, msg_updatedAt = 6\<rparr>"

definition db_messaging :: db where
  "db_messaging = db_empty\<lparr>db_messages := [msg_to_bob, msg_to_self]\<rparr>"

text \<open>A notification for the second account.\<close>

definition notif_for_bob :: notification where
  "notif_for_bob =
     (new_notification ''eeeeeeeeeeeeeeeeeeeeee01'' bob_id alice_id ConnectionRequest
        ''New Connection Request'' ''Alice wants to connect with you'' 3)
       \<lparr>notif_relatedUser := Some alice_id\<rparr>"

definition db_notified :: db where
  "db_notified = db_pending\<lparr>db_notifications := [notif_for_bob]\<rparr>"

text \<open>A post of the first account that the second has liked and commented on, and the
  body of a new post.\<close>

definition post1_id :: oid where "post1_id = ''999999999999999999999901''"

definition post1 :: post where
  "post1 = \<lparr>post_id = post1_id, post_author = alice_id, post_content = ''First post'',
     post_type = ''text'', post_images = [], post_link = None, post_hashtags = [],
     post_mentions = [], post_likes = [bob_id],
     post_comments = [\<lparr>comment_id = ''999999999999999999999902'', comment_user = bob_id,
        comment_content = ''Nice'', comment_likes = [], comment_createdAt = 6,
        comment_updatedAt = 6\<rparr>],
     post_shares = [], post_visibility = Public, post_isReported = False,
     post_reportedBy = [], post_engagementScore = 2, post_createdAt = 5,
     post_updatedAt = 6\<rparr>"

definition db_posted :: db where
  "db_posted = db_empty\<lparr>db_posts := [post1]\<rparr>"

text \<open>An open job the first account posted, to which the second has applied, the same
  job closed, and the same job stored without a title.\<close>

definition job1_id :: oid where "job1_id = ''777777777777777777777701''"

definition job1 :: job where
  "job1 = \<lparr>job_id = job1_id, job_title = ''Engineer'', job_company = ''Acme'',
     job_description = ''Build things'', job_location = ''Remote'',
     job_type = ''full-time'', job_experience = ''mid'',
     job_salary = \<lparr>salary_min = None, salary_max = None, salary_currency = ''USD'',
        salary_period = ''yearly''\<rparr>,
     job_skills = [''isabelle''], job_requirements = [], job_benefits = [],
     job_poster = alice_id,
     job_applications = [\<lparr>app_id = ''777777777777777777777702'', app_applicant = bob_id,
        app_coverLetter = Some ''Hire me'', app_resumeUrl = None, app_status = Applied,
        app_appliedAt = 6\<rparr>],
     job_externalUrl = None, job_companyLogo = None, job_isActive = True,
     job_deadline = None, job_remote = True, job_featured = False, job_views = 0,
     job_createdAt = 5, job_updatedAt = 6\<rparr>"

definition db_hiring :: db where
  "db_hiring = db_empty\<lparr>db_jobs := [job1]\<rparr>"

definition db_closed :: db where
  "db_closed = db_empty\<lparr>db_jobs := [job1\<lparr>job_isActive := False\<rparr>]\<rparr>"

definition db_untitled :: db where
  "db_untitled = db_empty\<lparr>db_jobs := [job1\<lparr>job_title := []\<rparr>]\<rparr>"

section \<open>Facts about the collection operations\<close>

lemmas example_defs =
  alice_id_def bob_id_def req_id_def fresh_id_def fresh_id2_def alice_def bob_def
  pending_req_def accepted_req_def db_empty_def db_pending_def db_accepted_def
  msg_to_bob_def msg_to_self_def db_messaging_def notif_for_bob_def db_notified_def

lemmas eval_defs =
  cast_oid_def is_hex_digit_def hex_lower_def reply_def trim_def is_space_def addToSet_def
  new_notification_def notification_valid_def save_notification_def
  connection_pre_save_def connection_valid_def between_def write_connection_def
  save_connection_def add_connection_def

lemma find_holds: "find P xs = Some x \<Longrightarrow> P x"
  by (induction xs) (auto split: if_splits)

lemma find_update_first:
  "(\<And>x. P x \<Longrightarrow> P (f x)) \<Longrightarrow> find P (update_first P f xs) = map_option f (find P xs)"
  by (induction xs) auto

lemma find_update_first_other:
  "(\<And>x. P x \<Longrightarrow> \<not> Q x \<and> \<not> Q (f x)) \<Longrightarrow> find Q (update_first P f xs) = find Q xs"
  by (induction xs) auto

lemma set_addToSet: "set (addToSet xs v) = insert v (set xs)"
  by (auto simp: addToSet_def)

lemma distinct_addToSet: "distinct xs \<Longrightarrow> distinct (addToSet xs v)"
  by (auto simp: addToSet_def)

lemma cast_oid_nonempty: "cast_oid x = Some y \<Longrightarrow> x \<noteq> []"
  by (auto simp: cast_oid_def)

lemma save_notification_frame:
  "save_notification s n = Some s' \<Longrightarrow>
     db_users s' = db_users s \<and> db_connections s' = db_connections s \<and>
     db_posts s' = db_posts s \<and> db_jobs s' = db_jobs s \<and> db_messages s' = db_messages s"
  by (auto simp: save_notification_def split: if_splits)

section \<open>Connection requests\<close>

lemma add_connection_users:
  "db_users (add_connection s a b now) =
     update_first (\<lambda>u. user_id u = a)
       (\<lambda>u. u\<lparr>user_connections := addToSet (user_connections u) b, user_updatedAt := now\<rparr>)
       (db_users s)"
  by (simp add: add_connection_def)

lemma add_connection_find_same:
  "find (\<lambda>u. user_id u = a) (db_users (add_connection s a b now)) =
     map_option
       (\<lambda>u. u\<lparr>user_connections := addToSet (user_connections u) b, user_updatedAt := now\<rparr>)
       (find (\<lambda>u. user_id u = a) (db_users s))"
  unfolding add_connection_users by (rule find_update_first) simp

lemma add_connection_find_other:
  "a \<noteq> c \<Longrightarrow>
     find (\<lambda>u. user_id u = c) (db_users (add_connection s a b now)) =
     find (\<lambda>u. user_id u = c) (db_users s)"
  unfolding add_connection_users by (rule find_update_first_other) simp

lemma add_connection_connections:
  "db_connections (add_connection s a b now) = db_connections s"
  by (simp add: add_connection_def)

lemma write_connection_users: "db_users (write_connection s c now) = db_users s"
  by (simp add: write_connection_def)

lemma write_connection_find:
  "find (\<lambda>d. conn_id d = conn_id c) (db_connections (write_connection s c now)) =
     map_option (\<lambda>_. (connection_pre_save now c)\<lparr>conn_updatedAt := now\<rparr>)
       (find (\<lambda>d. conn_id d = conn_id c) (db_connections s))"
  unfolding write_connection_def
  by (simp, rule find_update_first) (simp add: connection_pre_save_def)

lemma accept_notification_valid:
  "length (user_name me) \<le> 50 \<Longrightarrow>
     notification_valid
       ((new_notification nid rcpt sndr ty ''Connection Accepted''
           (user_name me @ '' accepted your connection request'') now)
         \<lparr>notif_relatedUser := r\<rparr>)"
  by (simp add: notification_valid_def new_notification_def)

lemma process_accept_state:
  assumes "cast_oid rid = Some cid"
    and "find (\<lambda>c. conn_id c = cid) (db_connections s) = Some c"
    and "conn_status c = Pending" and "conn_recipient c = user_id me"
    and "length (conn_message c) \<le> 300"
  shows "db_users (snd (process_request s me rid ''accept'' nid now)) =
           db_users (add_connection
             (add_connection (write_connection s (c\<lparr>conn_status := Accepted\<rparr>) now)
                (conn_requester c) (conn_recipient c) now)
             (conn_recipient c) (conn_requester c) now)"
    and "db_connections (snd (process_request s me rid ''accept'' nid now)) =
           db_connections (write_connection s (c\<lparr>conn_status := Accepted\<rparr>) now)"
    and "length (user_name me) \<le> 50 \<Longrightarrow>
           fst (process_request s me rid ''accept'' nid now) =
             reply 200 ''Connection request accepted''"
  using assms accept_notification_valid [of me]
  by (auto simp: process_request_def Let_def add_connection_connections
      save_connection_def connection_valid_def save_notification_def split: option.splits)

lemma accept_invalid_request_fails:
  assumes "cast_oid rid = Some cid"
    and "find (\<lambda>c. conn_id c = cid) (db_connections s) = Some c"
    and "conn_status c = Pending" and "conn_recipient c = user_id me"
    and "300 < length (conn_message c)"
    and "action = ''accept'' \<or> action = ''decline''"
  shows "process_request s me rid action nid now =
           (reply 500 ''Error processing connection request'', s)"
  using assms
  by (auto simp: process_request_def save_connection_def connection_valid_def)

text \<open>
  C1. A pending request, stored with a message within the 300 characters of the schema,
  is found under its id and its recipient accepts it. Afterwards
  the stored request is accepted, each of the two accounts has the other among its
  connections, and each connection list has gained at most that one entry: its members
  are the old ones and the other account, and a list without duplicates stays without
  duplicates. The route answers 200 when the name of the accepting account is within the
  50 characters the schema allows.
\<close>

theorem accept_connects_both_accounts:
  assumes rid: "cast_oid rid = Some cid"
    and c: "find (\<lambda>c. conn_id c = cid) (db_connections s) = Some c"
    and pending: "conn_status c = Pending"
    and valid: "length (conn_message c) \<le> 300"
    and rcpt: "conn_recipient c = user_id me"
    and ua: "find (\<lambda>u. user_id u = conn_requester c) (db_users s) = Some ua"
    and ub: "find (\<lambda>u. user_id u = conn_recipient c) (db_users s) = Some ub"
  shows "\<exists>c' ua' ub'.
           find (\<lambda>c. conn_id c = cid)
             (db_connections (snd (process_request s me rid ''accept'' nid now))) = Some c' \<and>
           conn_status c' = Accepted \<and>
           find (\<lambda>u. user_id u = conn_requester c)
             (db_users (snd (process_request s me rid ''accept'' nid now))) = Some ua' \<and>
           find (\<lambda>u. user_id u = conn_recipient c)
             (db_users (snd (process_request s me rid ''accept'' nid now))) = Some ub' \<and>
           conn_recipient c \<in> set (user_connections ua') \<and>
           conn_requester c \<in> set (user_connections ub') \<and>
           set (user_connections ua') = insert (conn_recipient c) (set (user_connections ua)) \<and>
           set (user_connections ub') = insert (conn_requester c) (set (user_connections ub)) \<and>
           (distinct (user_connections ua) \<longrightarrow> distinct (user_connections ua')) \<and>
           (distinct (user_connections ub) \<longrightarrow> distinct (user_connections ub')) \<and>
           (length (user_name me) \<le> 50 \<longrightarrow>
              fst (process_request s me rid ''accept'' nid now) =
                reply 200 ''Connection request accepted'')"
proof -
  have cid: "conn_id c = cid" using find_holds [OF c] .
  note st = process_accept_state [OF rid c pending rcpt valid, of nid now]
  have conn: "find (\<lambda>d. conn_id d = cid)
      (db_connections (snd (process_request s me rid ''accept'' nid now))) =
      Some ((connection_pre_save now (c\<lparr>conn_status := Accepted\<rparr>))\<lparr>conn_updatedAt := now\<rparr>)"
    using write_connection_find [of "c\<lparr>conn_status := Accepted\<rparr>" s now] c cid
    by (simp add: st(2))
  show ?thesis
  proof (cases "conn_requester c = conn_recipient c")
    case True
    then show ?thesis using conn ua ub st(3)
      by (auto simp: st(1) add_connection_find_same write_connection_users
          set_addToSet distinct_addToSet connection_pre_save_def)
  next
    case False
    then have ne: "conn_recipient c \<noteq> conn_requester c" by simp
    show ?thesis using conn ua ub False st(3)
      by (auto simp: st(1) add_connection_find_same
          add_connection_find_other [OF False] add_connection_find_other [OF ne]
          write_connection_users set_addToSet distinct_addToSet connection_pre_save_def)
  qed
qed

theorem accept_connects_both_accounts_witness:
  "\<exists>c' ua' ub'.
     find (\<lambda>c. conn_id c = req_id)
       (db_connections (snd (process_request db_pending bob req_id ''accept'' fresh_id 4)))
       = Some c' \<and>
     conn_status c' = Accepted \<and>
     find (\<lambda>u. user_id u = alice_id)
       (db_users (snd (process_request db_pending bob req_id ''accept'' fresh_id 4)))
       = Some ua' \<and>
     find (\<lambda>u. user_id u = bob_id)
       (db_users (snd (process_request db_pending bob req_id ''accept'' fresh_id 4)))
       = Some ub' \<and>
     bob_id \<in> set (user_connections ua') \<and> alice_id \<in> set (user_connections ub') \<and>
     set (user_connections ua') = {bob_id} \<and> set (user_connections ub') = {alice_id} \<and>
     distinct (user_connections ua') \<and> distinct (user_connections ub') \<and>
     fst (process_request db_pending bob req_id ''accept'' fresh_id 4) =
       reply 200 ''Connection request accepted''"
proof -
  have 1: "cast_oid req_id = Some req_id"
    by (simp add: example_defs eval_defs)
  have 2: "find (\<lambda>c. conn_id c = req_id) (db_connections db_pending) = Some pending_req"
    by (simp add: example_defs)
  have 3: "conn_status pending_req = Pending" and 4: "conn_recipient pending_req = user_id bob"
    and v: "length (conn_message pending_req) \<le> 300"
    by (simp_all add: example_defs)
  have 5: "find (\<lambda>u. user_id u = conn_requester pending_req) (db_users db_pending) = Some alice"
    and 6: "find (\<lambda>u. user_id u = conn_recipient pending_req) (db_users db_pending) = Some bob"
    by (simp_all add: example_defs)
  have r: "conn_requester pending_req = alice_id" "conn_recipient pending_req = bob_id"
    "user_connections alice = []" "user_connections bob = []" "length (user_name bob) \<le> 50"
    by (simp_all add: example_defs)
  show ?thesis
    using accept_connects_both_accounts [OF 1 2 3 v 4 5 6, of fresh_id 4] r(5)
    unfolding r(1-4) by simp
qed

text \<open>
  C4. A request between the requester and the target account is stored, in either
  direction and whatever its status. Sending a request to that account then leaves the
  database as it was (no request and no notification is written) and answers 400; unless
  the body names the requester itself, the answer is the conflict message.
\<close>

theorem send_request_rejects_existing_pair:
  assumes cast: "cast_oid userId = Some target"
    and account: "find (\<lambda>u. user_id u = target) (db_users s) = Some targetUser"
    and stored: "c \<in> set (db_connections s)"
    and pair: "(conn_requester c = user_id me \<and> conn_recipient c = target) \<or>
               (conn_requester c = target \<and> conn_recipient c = user_id me)"
  shows "snd (send_request s me userId msg cid nid now) = s \<and>
         resp_status (fst (send_request s me userId msg cid nid now)) = 400 \<and>
         (userId \<noteq> user_id me \<longrightarrow>
            fst (send_request s me userId msg cid nid now) =
              reply 400 ''Connection request already exists or you are already connected'')"
proof -
  have "find (between (user_id me) target) (db_connections s) \<noteq> None"
    using stored pair by (auto simp: find_None_iff between_def)
  then obtain e where "find (between (user_id me) target) (db_connections s) = Some e"
    by auto
  moreover have "userId \<noteq> []" using cast by (rule cast_oid_nonempty)
  ultimately show ?thesis using cast account
    by (auto simp: send_request_def reply_def)
qed

theorem send_request_rejects_existing_pair_witness:
  "snd (send_request db_accepted bob alice_id ''hi'' fresh_id fresh_id2 9) = db_accepted \<and>
   fst (send_request db_accepted bob alice_id ''hi'' fresh_id fresh_id2 9) =
     reply 400 ''Connection request already exists or you are already connected''"
proof -
  have 1: "cast_oid alice_id = Some alice_id"
    by (simp add: example_defs eval_defs)
  have 2: "find (\<lambda>u. user_id u = alice_id) (db_users db_accepted) =
             Some (alice\<lparr>user_connections := [bob_id]\<rparr>)"
    by (simp add: example_defs)
  have 3: "accepted_req \<in> set (db_connections db_accepted)"
    by (simp add: db_accepted_def db_empty_def)
  have 4: "(conn_requester accepted_req = user_id bob \<and> conn_recipient accepted_req = alice_id) \<or>
           (conn_requester accepted_req = alice_id \<and> conn_recipient accepted_req = user_id bob)"
    by (simp add: example_defs)
  have 5: "alice_id \<noteq> user_id bob"
    by (simp add: example_defs)
  show ?thesis
    using send_request_rejects_existing_pair [OF 1 2 3 4, of "''hi''" fresh_id fresh_id2 9] 5
    by simp
qed

text \<open>
  C8, as the code has it. The accept and decline handler checks the status itself: for a
  request that is found, addressed to the caller and no longer pending, it answers 400
  "Connection request already processed" and writes nothing.
\<close>

theorem process_request_rejects_processed:
  assumes "cast_oid rid = Some cid"
    and "find (\<lambda>c. conn_id c = cid) (db_connections s) = Some c"
    and "conn_recipient c = user_id me"
    and "conn_status c \<noteq> Pending"
    and "action = ''accept'' \<or> action = ''decline''"
  shows "process_request s me rid action nid now =
           (reply 400 ''Connection request already processed'', s)"
  using assms by (auto simp: process_request_def)

theorem process_request_rejects_processed_witness:
  "process_request db_accepted bob req_id ''accept'' fresh_id 9 =
     (reply 400 ''Connection request already processed'', db_accepted)"
  by (rule process_request_rejects_processed [where cid = req_id and c = accepted_req])
     (simp_all add: example_defs eval_defs)

text \<open>
  C8, as the claim states it, fails: accepting the request of the example a second time
  is rejected by the status check of the handler.
\<close>

theorem accept_twice_counterexample:
  "resp_status (fst (process_request db_accepted bob req_id ''accept'' fresh_id2 9)) = 400 \<and>
   resp_message (fst (process_request db_accepted bob req_id ''accept'' fresh_id2 9)) =
     ''Connection request already processed'' \<and>
   snd (process_request db_accepted bob req_id ''accept'' fresh_id2 9) = db_accepted"
  by (simp add: process_request_def example_defs eval_defs Let_def)

section \<open>Conversation identity\<close>

lemma join_sort_pair: "join ''_'' (sort [a, b]) = spec_conversationId a b"
  by (simp add: spec_conversationId_def)

lemma spec_conversationId_commute: "spec_conversationId a b = spec_conversationId b a"
  by (auto simp: spec_conversationId_def)

lemma hook_assigns_conversationId:
  "msg_conversationId (message_pre_save (new_message mid me r content type now)) =
     spec_conversationId (user_id me) r"
  by (auto simp: message_pre_save_def new_message_def spec_conversationId_def)

lemma message_pre_save_idem: "message_pre_save (message_pre_save m) = message_pre_save m"
  by (auto simp: message_pre_save_def)

lemma get_conversation_id:
  "\<exists>msgs. fst (get_conversation s me userId (Suc p) limit now) =
     Inr \<lparr>conv_messages = msgs, conv_conversationId = spec_conversationId (user_id me) userId\<rparr>"
  by (auto simp: get_conversation_def Let_def spec_conversationId_def)

lemma new_message_invalid: "\<not> message_valid (new_message mid me rid content type now)"
  by (simp add: message_valid_def new_message_def)

text \<open>
  C2 fails on the code. The conversation id is the sorted, underscore-joined pair, the
  same for both orders of the pair, the conversation route derives it, and the hook
  would give it to the document the send route builds (the lemmas above). But that
  document has no conversation id when the route hands it to \<^verbatim>\<open>save()\<close>, the field is
  required, and validation comes before the hook: whatever the request, the send route
  answers with an error reply (400, 404 or 500) and leaves the database as it was, so no
  message is saved and none is assigned a conversation id.
\<close>

theorem send_message_never_stores:
  "snd (send_message s me recipient content type mid now) = s \<and>
   (\<exists>r. fst (send_message s me recipient content type mid now) = Inl r \<and>
        resp_status r \<in> set [400, 404, 500]) \<and>
   save_message s (new_message mid me rid content type now) = None"
  using new_message_invalid [of mid me _ content type now]
  by (auto simp: send_message_def save_message_def reply_def split: option.splits)

theorem send_message_on_example:
  "send_message db_empty alice bob_id ''Hello Bob'' ''text'' fresh_id 5 =
     (Inl (reply 500 ''Error sending message''), db_empty) \<and>
   send_message db_empty bob alice_id ''Hello Alice'' ''text'' fresh_id2 6 =
     (Inl (reply 500 ''Error sending message''), db_empty) \<and>
   msg_conversationId
     (message_pre_save (new_message fresh_id alice bob_id ''Hello Bob'' ''text'' 5)) =
     ''aaaaaaaaaaaaaaaaaaaaaaaa_bbbbbbbbbbbbbbbbbbbbbbbb''"
  by (simp add: send_message_def save_message_def message_valid_def new_message_def
      message_pre_save_def example_defs eval_defs)

section \<open>Clearing notifications\<close>

lemma clear_all_deletes:
  "clear_all s me =
     (reply 200 (''Deleted '' @
        show_nat (length (filter (\<lambda>n. notif_recipient n = user_id me) (db_notifications s)))
        @ '' notifications''),
      s\<lparr>db_notifications :=
          filter (\<lambda>n. notif_recipient n \<noteq> user_id me) (db_notifications s)\<rparr>)"
  by (simp add: clear_all_def)

lemma cast_oid_clear_all: "cast_oid ''clear-all'' = None"
  by (simp add: cast_oid_def)

text \<open>
  C9 fails on the code. A \<^verbatim>\<open>DELETE\<close> of \<^verbatim>\<open>/clear-all\<close> is taken by the route
  \<^verbatim>\<open>/:id\<close>, which is registered first: its handler cannot read \<^verbatim>\<open>clear-all\<close> as an
  id, answers 500 "Error deleting notification" and deletes nothing, whoever asks and
  whatever is stored; the handler that clears the notifications is never reached.
\<close>

theorem clear_all_request_is_shadowed:
  "dispatch_delete s me ''clear-all'' = (reply 500 ''Error deleting notification'', s)"
  by (simp add: dispatch_delete_def delete_routes_def delete_notification_def
      cast_oid_clear_all)

theorem clear_all_request_on_example:
  "dispatch_delete db_notified bob ''clear-all'' =
     (reply 500 ''Error deleting notification'', db_notified) \<and>
   db_notifications db_notified = [notif_for_bob] \<and>
   notif_recipient notif_for_bob = user_id bob \<and>
   db_notifications (snd (clear_all db_notified bob)) = []"
  by (simp add: dispatch_delete_def delete_routes_def delete_notification_def
      cast_oid_clear_all clear_all_def example_defs new_notification_def)

section \<open>Marking messages read\<close>

lemma mark_messages_read_nth:
  "i < length (db_messages s) \<Longrightarrow>
     db_messages (mark_messages_read s uid cid now) ! i =
       (if unread_for uid cid (db_messages s ! i)
        then (db_messages s ! i)\<lparr>msg_readAt := Some now, msg_updatedAt := now\<rparr>
        else db_messages s ! i)"
  by (simp add: mark_messages_read_def)

lemma mark_messages_read_others:
  "db_users (mark_messages_read s uid cid now) = db_users s \<and>
   db_connections (mark_messages_read s uid cid now) = db_connections s \<and>
   db_posts (mark_messages_read s uid cid now) = db_posts s \<and>
   db_jobs (mark_messages_read s uid cid now) = db_jobs s \<and>
   db_notifications (mark_messages_read s uid cid now) = db_notifications s \<and>
   length (db_messages (mark_messages_read s uid cid now)) = length (db_messages s)"
  by (simp add: mark_messages_read_def)

text \<open>
  C10, as the code has it. After the mark-read route, or after fetching a page (from 1
  on) of the conversation with \<open>userId\<close>, the collections other than the messages are
  as before and so is the number of messages. A message of that conversation whose
  recipient is the requester and which was unread has its \<^verbatim>\<open>readAt\<close> and its
  \<^verbatim>\<open>updatedAt\<close> set to the time of the request and no other field changed; every other
  message is unchanged.
\<close>

theorem mark_read_frame:
  assumes route:
    "s' = snd (mark_read s me cid now) \<or>
     (1 \<le> page \<and> cid = join ''_'' (sort [user_id me, userId]) \<and>
      s' = snd (get_conversation s me userId page limit now))"
    and i: "i < length (db_messages s)"
  shows "db_users s' = db_users s \<and> db_connections s' = db_connections s \<and>
         db_posts s' = db_posts s \<and> db_jobs s' = db_jobs s \<and>
         db_notifications s' = db_notifications s \<and>
         length (db_messages s') = length (db_messages s) \<and>
         (if msg_conversationId (db_messages s ! i) = cid \<and>
             msg_recipient (db_messages s ! i) = user_id me \<and>
             msg_readAt (db_messages s ! i) = None
          then db_messages s' ! i =
                 (db_messages s ! i)\<lparr>msg_readAt := Some now, msg_updatedAt := now\<rparr>
          else db_messages s' ! i = db_messages s ! i)"
proof -
  have "s' = mark_messages_read s (user_id me) cid now"
    using route by (auto simp: mark_read_def get_conversation_def Let_def)
  then show ?thesis
    using mark_messages_read_nth [OF i, of "user_id me" cid now]
      mark_messages_read_others [of s "user_id me" cid now]
    by (simp add: unread_for_def)
qed

theorem mark_read_frame_witness:
  "db_messages
     (snd (mark_read db_messaging bob ''aaaaaaaaaaaaaaaaaaaaaaaa_bbbbbbbbbbbbbbbbbbbbbbbb'' 9)) ! 0 =
     msg_to_bob\<lparr>msg_readAt := Some 9, msg_updatedAt := 9\<rparr> \<and>
   db_messages
     (snd (mark_read db_messaging bob ''aaaaaaaaaaaaaaaaaaaaaaaa_bbbbbbbbbbbbbbbbbbbbbbbb'' 9)) ! 1 =
     msg_to_self \<and>
   db_messages (snd (get_conversation db_messaging bob alice_id 1 50 9)) ! 0 =
     msg_to_bob\<lparr>msg_readAt := Some 9, msg_updatedAt := 9\<rparr> \<and>
   db_messages (snd (get_conversation db_messaging bob alice_id 1 50 9)) ! 1 = msg_to_self"
proof -
  have len: "0 < length (db_messages db_messaging)" "1 < length (db_messages db_messaging)"
    by (simp_all add: db_messaging_def db_empty_def)
  have m: "db_messages db_messaging ! 0 = msg_to_bob" "db_messages db_messaging ! 1 = msg_to_self"
    by (simp_all add: db_messaging_def db_empty_def)
  have f: "msg_conversationId msg_to_bob = ''aaaaaaaaaaaaaaaaaaaaaaaa_bbbbbbbbbbbbbbbbbbbbbbbb''"
    "msg_recipient msg_to_bob = user_id bob" "msg_readAt msg_to_bob = None"
    "msg_recipient msg_to_self \<noteq> user_id bob"
    by (simp_all add: example_defs)
  have route: "(1::nat) \<le> 1 \<and>
      ''aaaaaaaaaaaaaaaaaaaaaaaa_bbbbbbbbbbbbbbbbbbbbbbbb'' =
        join ''_'' (sort [user_id bob, alice_id]) \<and>
      snd (get_conversation db_messaging bob alice_id 1 50 9) =
        snd (get_conversation db_messaging bob alice_id 1 50 9)"
    by (simp add: example_defs)
  show ?thesis
    using mark_read_frame [OF disjI1 [OF refl] len(1), of bob
        "''aaaaaaaaaaaaaaaaaaaaaaaa_bbbbbbbbbbbbbbbbbbbbbbbb''" 9]
      mark_read_frame [OF disjI1 [OF refl] len(2), of bob
        "''aaaaaaaaaaaaaaaaaaaaaaaa_bbbbbbbbbbbbbbbbbbbbbbbb''" 9]
      mark_read_frame [OF disjI2 [OF route] len(1)]
      mark_read_frame [OF disjI2 [OF route] len(2)]
    unfolding m using f by simp
qed

text \<open>
  C10, as the claim states it, fails twice. A message the requester sent to itself is a
  message sent by the requester, and is marked read; and on a message that is marked
  read the field \<^verbatim>\<open>updatedAt\<close> changes along with \<^verbatim>\<open>readAt\<close>.
\<close>

theorem mark_read_counterexample:
  "msg_sender msg_to_self = user_id alice \<and>
   msg_to_self \<in> set (db_messages db_messaging) \<and>
   msg_to_self \<notin> set (db_messages (snd (get_conversation db_messaging alice alice_id 1 50 9))) \<and>
   msg_to_self \<notin> set (db_messages (snd (mark_read db_messaging alice
      ''aaaaaaaaaaaaaaaaaaaaaaaa_aaaaaaaaaaaaaaaaaaaaaaaa'' 9))) \<and>
   msg_updatedAt msg_to_bob = 5 \<and>
   map msg_updatedAt (db_messages (snd (mark_read db_messaging bob
      ''aaaaaaaaaaaaaaaaaaaaaaaa_bbbbbbbbbbbbbbbbbbbbbbbb'' 9))) = [9, 6]"
  by (simp add: get_conversation_def mark_read_def mark_messages_read_def unread_for_def
      Let_def example_defs)

section \<open>Posts: engagement score, likes\<close>

lemma set_update_first:
  "x \<in> set (update_first P f xs) \<Longrightarrow> x \<in> set xs \<or> (\<exists>y \<in> set xs. P y \<and> x = f y)"
  by (induction xs) (auto split: if_splits)

lemma notify_author_frame:
  "notify_author s me p ty title verb nid now = Some s' \<Longrightarrow>
     db_posts s' = db_posts s \<and> db_users s' = db_users s"
  by (auto simp: notify_author_def split: if_splits dest: save_notification_frame)

lemma write_post_find:
  "find (\<lambda>q. post_id q = post_id p) (db_posts (write_post s p now)) =
     map_option (\<lambda>_. (post_pre_save p)\<lparr>post_updatedAt := now\<rparr>)
       (find (\<lambda>q. post_id q = post_id p) (db_posts s))"
  unfolding write_post_def by (simp, rule find_update_first) (simp add: post_pre_save_def)

lemma write_post_written:
  "x \<in> set (db_posts (write_post s p now)) \<Longrightarrow>
     x \<in> set (db_posts s) \<or> x = (post_pre_save p)\<lparr>post_updatedAt := now\<rparr>"
  by (auto simp: write_post_def dest: set_update_first)

text \<open>What each route leaves in the posts collection.\<close>

lemma create_post_posts:
  "resp_status (fst (create_post s me content ty imgs lnk tags pid now)) = 201 \<Longrightarrow>
     \<exists>p. db_posts (snd (create_post s me content ty imgs lnk tags pid now)) =
            db_posts s @ [post_pre_save p] \<and> post_id p = pid \<and> post_author p = user_id me \<and>
          post_content p = trim content \<and> post_hashtags p = map toLowerCase tags \<and>
          post_visibility p = Public \<and> post_createdAt p = now \<and> post_likes p = [] \<and>
          post_comments p = [] \<and> post_shares p = []"
  by (auto simp: create_post_def Let_def reply_def split: if_splits)

lemma post_valid_likes: "post_valid (p\<lparr>post_likes := ls\<rparr>) = post_valid p"
  by (simp add: post_valid_def)

lemma like_post_posts:
  assumes "cast_oid pidstr = Some pid"
    and "find (\<lambda>q. post_id q = pid) (db_posts s) = Some p"
    and "post_valid p"
  shows "db_posts (snd (like_post s me pidstr nid now)) =
           db_posts (write_post s
             (p\<lparr>post_likes :=
                  (if user_id me \<in> set (post_likes p)
                   then filter (\<lambda>i. i \<noteq> user_id me) (post_likes p)
                   else post_likes p @ [user_id me])\<rparr>) now)"
  using assms
  by (auto simp: like_post_def Let_def save_post_def post_valid_likes
      split: option.splits dest: notify_author_frame)

lemma like_post_posts_any:
  "db_posts (snd (like_post s me pidstr nid now)) = db_posts s \<or>
   (\<exists>p. db_posts (snd (like_post s me pidstr nid now)) = db_posts (write_post s p now))"
  by (auto simp: like_post_def Let_def save_post_def
      split: option.splits if_splits dest: notify_author_frame)

lemma comment_post_posts_any:
  "db_posts (snd (comment_post s me pidstr content cmid nid now)) = db_posts s \<or>
   (\<exists>p. db_posts (snd (comment_post s me pidstr content cmid nid now)) =
      db_posts (write_post s p now))"
  by (auto simp: comment_post_def Let_def save_post_def
      split: option.splits if_splits dest: notify_author_frame)

lemma share_post_posts_any:
  "db_posts (snd (share_post s me pidstr shid nid now)) = db_posts s \<or>
   (\<exists>p. db_posts (snd (share_post s me pidstr shid nid now)) = db_posts (write_post s p now))"
  by (auto simp: share_post_def Let_def save_post_def
      split: option.splits if_splits dest: notify_author_frame)

lemma comment_post_posts:
  assumes "resp_status (fst (comment_post s me pidstr content cmid nid now)) = 200"
  shows "\<exists>pid p. cast_oid pidstr = Some pid \<and>
           find (\<lambda>q. post_id q = pid) (db_posts s) = Some p \<and>
           db_posts (snd (comment_post s me pidstr content cmid nid now)) =
             db_posts (write_post s
               (p\<lparr>post_comments := post_comments p @
                    [\<lparr>comment_id = cmid, comment_user = user_id me,
                      comment_content = trim content, comment_likes = [],
                      comment_createdAt = now, comment_updatedAt = now\<rparr>]\<rparr>) now)"
  using assms
  by (auto simp: comment_post_def Let_def reply_def save_post_def
      split: option.splits if_splits dest: notify_author_frame)

lemma share_post_posts:
  assumes "resp_status (fst (share_post s me pidstr shid nid now)) = 200"
  shows "\<exists>pid p. cast_oid pidstr = Some pid \<and>
           find (\<lambda>q. post_id q = pid) (db_posts s) = Some p \<and>
           db_posts (snd (share_post s me pidstr shid nid now)) =
             db_posts (write_post s
               (p\<lparr>post_shares := post_shares p @
                    [\<lparr>share_id = shid, share_user = user_id me, share_sharedAt = now\<rparr>]\<rparr>)
               now)"
  using assms
  by (auto simp: share_post_def Let_def reply_def save_post_def
      split: option.splits if_splits dest: notify_author_frame)

lemma like_post_found:
  assumes "resp_status (fst (like_post s me pidstr nid now)) = 200"
  shows "\<exists>pid p. cast_oid pidstr = Some pid \<and>
           find (\<lambda>q. post_id q = pid) (db_posts s) = Some p \<and> post_valid p"
  using assms
  by (auto simp: like_post_def Let_def reply_def save_post_def post_valid_likes
      split: option.splits if_splits)


lemmas post_eval_defs = post_pre_save_def post_valid_def comment_valid_def write_post_def
  save_post_def notify_author_def to_lower_def upper_case_def lower_case_def
  toLowerCase_def spec_engagementScore_def

lemmas more_example_defs = post1_id_def post1_def db_posted_def job1_id_def job1_def
  db_hiring_def db_closed_def db_untitled_def

lemma stored_after_save:
  assumes "find (\<lambda>q. post_id q = pid) (db_posts s) = Some p" and "post_id p' = pid"
  shows "find (\<lambda>q. post_id q = pid) (db_posts (write_post s p' now)) =
           Some ((post_pre_save p')\<lparr>post_updatedAt := now\<rparr>)"
  using write_post_find [of p' s now] assms by simp

lemma written_posts_score:
  assumes "db_posts s' = db_posts s \<or> (\<exists>p. db_posts s' = db_posts (write_post s p now))"
    and "x \<in> set (db_posts s')"
  shows "x \<in> set (db_posts s) \<or> post_engagementScore x = spec_engagementScore x"
proof (cases "db_posts s' = db_posts s")
  case True
  then show ?thesis using assms(2) by simp
next
  case False
  then obtain p where "db_posts s' = db_posts (write_post s p now)"
    using assms(1) by blast
  then have "x \<in> set (db_posts s) \<or> x = (post_pre_save p)\<lparr>post_updatedAt := now\<rparr>"
    using assms(2) write_post_written [of x s p now] by simp
  then show ?thesis
    by (auto simp: post_pre_save_def spec_engagementScore_def)
qed

text \<open>
  C3. Whenever a route answers that it created a post, or liked, unliked, commented on or
  shared one, the post it stored has an engagement score equal to the number of its likes
  plus the number of its comments plus twice the number of its shares. More generally a
  post in the collection after the like, comment or share route is either a document that
  was there before or one with that score.
\<close>

theorem engagement_score_after_post_operations:
  "(resp_status (fst (create_post s me content ty imgs lnk tags pid now)) = 201 \<longrightarrow>
      (\<exists>p. db_posts (snd (create_post s me content ty imgs lnk tags pid now)) =
              db_posts s @ [p] \<and>
           post_id p = pid \<and> post_engagementScore p = spec_engagementScore p)) \<and>
   (resp_status (fst (like_post s me pidstr nid now)) = 200 \<longrightarrow>
      (\<exists>pid p. cast_oid pidstr = Some pid \<and>
         find (\<lambda>q. post_id q = pid) (db_posts (snd (like_post s me pidstr nid now))) =
           Some p \<and>
         post_engagementScore p = spec_engagementScore p)) \<and>
   (resp_status (fst (comment_post s me pidstr ctext cmid nid now)) = 200 \<longrightarrow>
      (\<exists>pid p. cast_oid pidstr = Some pid \<and>
         find (\<lambda>q. post_id q = pid)
           (db_posts (snd (comment_post s me pidstr ctext cmid nid now))) = Some p \<and>
         post_engagementScore p = spec_engagementScore p)) \<and>
   (resp_status (fst (share_post s me pidstr shid nid now)) = 200 \<longrightarrow>
      (\<exists>pid p. cast_oid pidstr = Some pid \<and>
         find (\<lambda>q. post_id q = pid)
           (db_posts (snd (share_post s me pidstr shid nid now))) = Some p \<and>
         post_engagementScore p = spec_engagementScore p)) \<and>
   (\<forall>x \<in> set (db_posts (snd (like_post s me pidstr nid now))).
      x \<in> set (db_posts s) \<or> post_engagementScore x = spec_engagementScore x) \<and>
   (\<forall>x \<in> set (db_posts (snd (comment_post s me pidstr ctext cmid nid now))).
      x \<in> set (db_posts s) \<or> post_engagementScore x = spec_engagementScore x) \<and>
   (\<forall>x \<in> set (db_posts (snd (share_post s me pidstr shid nid now))).
      x \<in> set (db_posts s) \<or> post_engagementScore x = spec_engagementScore x)"
proof -
  have score: "\<And>p t. post_engagementScore ((post_pre_save p)\<lparr>post_updatedAt := t\<rparr>) =
      spec_engagementScore ((post_pre_save p)\<lparr>post_updatedAt := t\<rparr>)"
    by (simp add: post_pre_save_def spec_engagementScore_def)
  have "resp_status (fst (create_post s me content ty imgs lnk tags pid now)) = 201 \<Longrightarrow>
      \<exists>p. db_posts (snd (create_post s me content ty imgs lnk tags pid now)) =
              db_posts s @ [p] \<and>
           post_id p = pid \<and> post_engagementScore p = spec_engagementScore p"
    using create_post_posts [of s me content ty imgs lnk tags pid now]
    by (auto simp: post_pre_save_def spec_engagementScore_def)
  moreover have "resp_status (fst (like_post s me pidstr nid now)) = 200 \<Longrightarrow>
      \<exists>pid p. cast_oid pidstr = Some pid \<and>
         find (\<lambda>q. post_id q = pid) (db_posts (snd (like_post s me pidstr nid now))) =
           Some p \<and>
         post_engagementScore p = spec_engagementScore p"
  proof -
    assume "resp_status (fst (like_post s me pidstr nid now)) = 200"
    then obtain pid p where c: "cast_oid pidstr = Some pid"
      and f: "find (\<lambda>q. post_id q = pid) (db_posts s) = Some p"
      and v: "post_valid p"
      using like_post_found by blast
    have "post_id p = pid" using find_holds [OF f] .
    then show ?thesis
      using like_post_posts [OF c f v, of me nid now] stored_after_save [OF f] c score
      by (intro exI [of _ pid]) simp
  qed
  moreover have "resp_status (fst (comment_post s me pidstr ctext cmid nid now)) = 200 \<Longrightarrow>
      \<exists>pid p. cast_oid pidstr = Some pid \<and>
         find (\<lambda>q. post_id q = pid)
           (db_posts (snd (comment_post s me pidstr ctext cmid nid now))) = Some p \<and>
         post_engagementScore p = spec_engagementScore p"
  proof -
    assume "resp_status (fst (comment_post s me pidstr ctext cmid nid now)) = 200"
    from comment_post_posts [OF this] obtain pid p where c: "cast_oid pidstr = Some pid"
      and f: "find (\<lambda>q. post_id q = pid) (db_posts s) = Some p"
      and e: "db_posts (snd (comment_post s me pidstr ctext cmid nid now)) =
             db_posts (write_post s
               (p\<lparr>post_comments := post_comments p @
                    [\<lparr>comment_id = cmid, comment_user = user_id me,
                      comment_content = trim ctext, comment_likes = [],
                      comment_createdAt = now, comment_updatedAt = now\<rparr>]\<rparr>) now)"
      by blast
    have "post_id p = pid" using find_holds [OF f] .
    then show ?thesis
      using e stored_after_save [OF f] c score
      by (intro exI [of _ pid]) simp
  qed
  moreover have "resp_status (fst (share_post s me pidstr shid nid now)) = 200 \<Longrightarrow>
      \<exists>pid p. cast_oid pidstr = Some pid \<and>
         find (\<lambda>q. post_id q = pid)
           (db_posts (snd (share_post s me pidstr shid nid now))) = Some p \<and>
         post_engagementScore p = spec_engagementScore p"
  proof -
    assume "resp_status (fst (share_post s me pidstr shid nid now)) = 200"
    from share_post_posts [OF this] obtain pid p where c: "cast_oid pidstr = Some pid"
      and f: "find (\<lambda>q. post_id q = pid) (db_posts s) = Some p"
      and e: "db_posts (snd (share_post s me pidstr shid nid now)) =
             db_posts (write_post s
               (p\<lparr>post_shares := post_shares p @
                    [\<lparr>share_id = shid, share_user = user_id me, share_sharedAt = now\<rparr>]\<rparr>)
               now)"
      by blast
    have "post_id p = pid" using find_holds [OF f] .
    then show ?thesis
      using e stored_after_save [OF f] c score
      by (intro exI [of _ pid]) simp
  qed
  moreover have "\<forall>x \<in> set (db_posts (snd (like_post s me pidstr nid now))).
      x \<in> set (db_posts s) \<or> post_engagementScore x = spec_engagementScore x"
    using written_posts_score [OF like_post_posts_any] by blast
  moreover have "\<forall>x \<in> set (db_posts (snd (comment_post s me pidstr ctext cmid nid now))).
      x \<in> set (db_posts s) \<or> post_engagementScore x = spec_engagementScore x"
    using written_posts_score [OF comment_post_posts_any] by blast
  moreover have "\<forall>x \<in> set (db_posts (snd (share_post s me pidstr shid nid now))).
      x \<in> set (db_posts s) \<or> post_engagementScore x = spec_engagementScore x"
    using written_posts_score [OF share_post_posts_any] by blast
  ultimately show ?thesis by blast
qed

theorem engagement_score_after_post_operations_witness:
  "(\<exists>p. db_posts (snd (create_post db_empty alice ''Hello #test'' ''text'' [] None
             [''test''] post1_id 5)) = db_posts db_empty @ [p] \<and>
        post_id p = post1_id \<and> post_engagementScore p = spec_engagementScore p) \<and>
   (\<exists>p. find (\<lambda>q. post_id q = post1_id)
           (db_posts (snd (like_post db_posted alice post1_id fresh_id 9))) = Some p \<and>
        post_engagementScore p = spec_engagementScore p) \<and>
   (\<exists>p. find (\<lambda>q. post_id q = post1_id)
           (db_posts (snd (comment_post db_posted bob post1_id ''Again'' fresh_id
              fresh_id2 9))) = Some p \<and>
        post_engagementScore p = spec_engagementScore p) \<and>
   (\<exists>p. find (\<lambda>q. post_id q = post1_id)
           (db_posts (snd (share_post db_posted bob post1_id fresh_id fresh_id2 9))) =
           Some p \<and>
        post_engagementScore p = spec_engagementScore p)"
proof -
  have c: "cast_oid post1_id = Some post1_id"
    by (simp add: more_example_defs eval_defs)
  have 1: "resp_status (fst (create_post db_empty alice ''Hello #test'' ''text'' [] None
             [''test''] post1_id 5)) = 201"
    by (simp add: create_post_def Let_def example_defs eval_defs post_eval_defs)
  have 2: "resp_status (fst (like_post db_posted alice post1_id fresh_id 9)) = 200"
    by (simp add: like_post_def Let_def example_defs more_example_defs eval_defs
        post_eval_defs)
  have 3: "resp_status (fst (comment_post db_posted bob post1_id ''Again'' fresh_id
             fresh_id2 9)) = 200"
    by (simp add: comment_post_def Let_def example_defs more_example_defs eval_defs
        post_eval_defs)
  have 4: "resp_status (fst (share_post db_posted bob post1_id fresh_id fresh_id2 9)) = 200"
    by (simp add: share_post_def Let_def example_defs more_example_defs eval_defs
        post_eval_defs)
  have "\<exists>p. db_posts (snd (create_post db_empty alice ''Hello #test'' ''text'' [] None
             [''test''] post1_id 5)) = db_posts db_empty @ [p] \<and>
        post_id p = post1_id \<and> post_engagementScore p = spec_engagementScore p"
    using engagement_score_after_post_operations
      [of db_empty alice "''Hello #test''" "''text''" "[]" None "[''test'']" post1_id 5
          post1_id fresh_id "''Again''" fresh_id fresh_id] 1
    by blast
  moreover have "\<exists>p. find (\<lambda>q. post_id q = post1_id)
           (db_posts (snd (like_post db_posted alice post1_id fresh_id 9))) = Some p \<and>
        post_engagementScore p = spec_engagementScore p"
    using engagement_score_after_post_operations
      [of db_posted alice "''Hello #test''" "''text''" "[]" None "[''test'']" post1_id 9
          post1_id fresh_id "''Again''" fresh_id fresh_id] 2 c
    by auto
  moreover have "(\<exists>p. find (\<lambda>q. post_id q = post1_id)
           (db_posts (snd (comment_post db_posted bob post1_id ''Again'' fresh_id
              fresh_id2 9))) = Some p \<and>
        post_engagementScore p = spec_engagementScore p) \<and>
     (\<exists>p. find (\<lambda>q. post_id q = post1_id)
           (db_posts (snd (share_post db_posted bob post1_id fresh_id fresh_id2 9))) =
           Some p \<and>
        post_engagementScore p = spec_engagementScore p)"
    using engagement_score_after_post_operations
      [of db_posted bob "''Hello #test''" "''text''" "[]" None "[''test'']" post1_id 9
          post1_id fresh_id2 "''Again''" fresh_id fresh_id] 3 4 c
    by auto
  ultimately show ?thesis by blast
qed

lemma count_list_filter_neq:
  "count_list (filter (\<lambda>i. i \<noteq> u) xs) i = (if i = u then 0 else count_list xs i)"
  by (induction xs) auto

lemma count_list_snoc: "count_list (xs @ [u]) i = count_list xs i + (if i = u then 1 else 0)"
  by (induction xs) auto

lemma count_list_notin: "u \<notin> set xs \<Longrightarrow> count_list xs u = 0"
  by (induction xs) auto

lemma filter_neq_notin: "u \<notin> set xs \<Longrightarrow> filter (\<lambda>i. i \<noteq> u) xs = xs"
  by (induction xs) auto

lemma like_post_stored:
  assumes cast: "cast_oid pidstr = Some pid"
    and found: "find (\<lambda>q. post_id q = pid) (db_posts s) = Some p"
    and valid: "post_valid p"
  shows "\<exists>p'. find (\<lambda>q. post_id q = pid) (db_posts (snd (like_post s me pidstr nid now))) =
                Some p' \<and>
              post_valid p' \<and>
              post_likes p' =
                (if user_id me \<in> set (post_likes p)
                 then filter (\<lambda>i. i \<noteq> user_id me) (post_likes p)
                 else post_likes p @ [user_id me])"
proof -
  have "post_id p = pid" using find_holds [OF found] .
  then show ?thesis
    using like_post_posts [OF cast found valid, of me nid now] stored_after_save [OF found]
      valid
    by (simp add: post_pre_save_def post_valid_def)
qed

text \<open>
  C5. The post is found under its id and passes the validators of its schema, as every
  post the routes have stored does. One call of the like route toggles the requester:
  if the requester is among the likes its id is filtered out and every other id stays as
  often as it was, otherwise its id is appended; afterwards the id occurs at most once,
  and a like list without duplicates stays without duplicates. From a post the requester
  does not like, three calls in a row (like, unlike, like) leave the likes of the start
  followed by the requester: one more than at the start, the requester exactly once.
\<close>

theorem like_toggles_membership:
  assumes cast: "cast_oid pidstr = Some pid"
    and found: "find (\<lambda>q. post_id q = pid) (db_posts s) = Some p"
    and valid: "post_valid p"
  shows "(\<exists>p1. find (\<lambda>q. post_id q = pid)
                 (db_posts (snd (like_post s me pidstr nid now))) = Some p1 \<and>
            post_likes p1 =
              (if user_id me \<in> set (post_likes p)
               then filter (\<lambda>i. i \<noteq> user_id me) (post_likes p)
               else post_likes p @ [user_id me]) \<and>
            (user_id me \<in> set (post_likes p) \<longrightarrow>
               user_id me \<notin> set (post_likes p1) \<and>
               (\<forall>i. i \<noteq> user_id me \<longrightarrow>
                  count_list (post_likes p1) i = count_list (post_likes p) i)) \<and>
            count_list (post_likes p1) (user_id me) \<le> 1 \<and>
            (distinct (post_likes p) \<longrightarrow> distinct (post_likes p1))) \<and>
         (user_id me \<notin> set (post_likes p) \<longrightarrow>
            (\<exists>p3. find (\<lambda>q. post_id q = pid)
                    (db_posts (snd (like_post
                       (snd (like_post (snd (like_post s me pidstr n1 t1)) me pidstr n2 t2))
                       me pidstr n3 t3))) = Some p3 \<and>
               post_likes p3 = post_likes p @ [user_id me] \<and>
               length (post_likes p3) = length (post_likes p) + 1 \<and>
               count_list (post_likes p3) (user_id me) = 1))"
proof
  obtain p1 where p1: "find (\<lambda>q. post_id q = pid)
      (db_posts (snd (like_post s me pidstr nid now))) = Some p1"
    and l1: "post_likes p1 =
              (if user_id me \<in> set (post_likes p)
               then filter (\<lambda>i. i \<noteq> user_id me) (post_likes p)
               else post_likes p @ [user_id me])"
    using like_post_stored [OF cast found valid] by blast
  have "count_list (post_likes p1) (user_id me) \<le> 1"
    by (simp add: l1 count_list_filter_neq count_list_snoc count_list_notin)
  moreover have "distinct (post_likes p) \<longrightarrow> distinct (post_likes p1)"
    by (simp add: l1)
  moreover have "user_id me \<in> set (post_likes p) \<longrightarrow>
               user_id me \<notin> set (post_likes p1) \<and>
               (\<forall>i. i \<noteq> user_id me \<longrightarrow>
                  count_list (post_likes p1) i = count_list (post_likes p) i)"
    by (simp add: l1 count_list_filter_neq)
  ultimately show "\<exists>p1. find (\<lambda>q. post_id q = pid)
                 (db_posts (snd (like_post s me pidstr nid now))) = Some p1 \<and>
            post_likes p1 =
              (if user_id me \<in> set (post_likes p)
               then filter (\<lambda>i. i \<noteq> user_id me) (post_likes p)
               else post_likes p @ [user_id me]) \<and>
            (user_id me \<in> set (post_likes p) \<longrightarrow>
               user_id me \<notin> set (post_likes p1) \<and>
               (\<forall>i. i \<noteq> user_id me \<longrightarrow>
                  count_list (post_likes p1) i = count_list (post_likes p) i)) \<and>
            count_list (post_likes p1) (user_id me) \<le> 1 \<and>
            (distinct (post_likes p) \<longrightarrow> distinct (post_likes p1))"
    using p1 l1 by blast
next
  show "user_id me \<notin> set (post_likes p) \<longrightarrow>
            (\<exists>p3. find (\<lambda>q. post_id q = pid)
                    (db_posts (snd (like_post
                       (snd (like_post (snd (like_post s me pidstr n1 t1)) me pidstr n2 t2))
                       me pidstr n3 t3))) = Some p3 \<and>
               post_likes p3 = post_likes p @ [user_id me] \<and>
               length (post_likes p3) = length (post_likes p) + 1 \<and>
               count_list (post_likes p3) (user_id me) = 1)"
  proof
    assume fresh: "user_id me \<notin> set (post_likes p)"
    then have fl: "filter (\<lambda>i. i \<noteq> user_id me) (post_likes p) = post_likes p"
      by (rule filter_neq_notin)
    obtain p1 where p1: "find (\<lambda>q. post_id q = pid)
        (db_posts (snd (like_post s me pidstr n1 t1))) = Some p1"
      and v1: "post_valid p1"
      and l1: "post_likes p1 = post_likes p @ [user_id me]"
      using like_post_stored [OF cast found valid, of me n1 t1] fresh by auto
    obtain p2 where p2: "find (\<lambda>q. post_id q = pid)
        (db_posts (snd (like_post (snd (like_post s me pidstr n1 t1)) me pidstr n2 t2))) =
        Some p2"
      and v2: "post_valid p2"
      and l2: "post_likes p2 = post_likes p"
      using like_post_stored [OF cast p1 v1, of me n2 t2] by (auto simp: l1 fl)
    obtain p3 where p3: "find (\<lambda>q. post_id q = pid)
        (db_posts (snd (like_post
           (snd (like_post (snd (like_post s me pidstr n1 t1)) me pidstr n2 t2))
           me pidstr n3 t3))) = Some p3"
      and l3: "post_likes p3 = post_likes p @ [user_id me]"
      using like_post_stored [OF cast p2 v2, of me n3 t3] fresh by (auto simp: l2)
    show "\<exists>p3. find (\<lambda>q. post_id q = pid)
                    (db_posts (snd (like_post
                       (snd (like_post (snd (like_post s me pidstr n1 t1)) me pidstr n2 t2))
                       me pidstr n3 t3))) = Some p3 \<and>
               post_likes p3 = post_likes p @ [user_id me] \<and>
               length (post_likes p3) = length (post_likes p) + 1 \<and>
               count_list (post_likes p3) (user_id me) = 1"
      using p3 l3 fresh by (simp add: count_list_snoc count_list_notin)
  qed
qed

theorem like_toggles_membership_witness:
  "(\<exists>p1. find (\<lambda>q. post_id q = post1_id)
            (db_posts (snd (like_post db_posted bob post1_id fresh_id 9))) = Some p1 \<and>
          post_likes p1 = []) \<and>
   (\<exists>p3. find (\<lambda>q. post_id q = post1_id)
            (db_posts (snd (like_post
               (snd (like_post (snd (like_post db_posted alice post1_id fresh_id 7))
                  alice post1_id fresh_id 8))
               alice post1_id fresh_id 9))) = Some p3 \<and>
          post_likes p3 = [bob_id, alice_id] \<and> length (post_likes p3) = 2 \<and>
          count_list (post_likes p3) alice_id = 1)"
proof -
  have c: "cast_oid post1_id = Some post1_id"
    by (simp add: more_example_defs eval_defs)
  have f: "find (\<lambda>q. post_id q = post1_id) (db_posts db_posted) = Some post1"
    by (simp add: more_example_defs example_defs)
  have v: "post_likes post1 = [bob_id]" "user_id bob = bob_id" "user_id alice = alice_id"
    "alice_id \<noteq> bob_id"
    by (simp_all add: more_example_defs example_defs)
  have ok: "post_valid post1"
    by (simp add: more_example_defs post_valid_def comment_valid_def)
  show ?thesis
    using like_toggles_membership [OF c f ok, of bob fresh_id 9]
      like_toggles_membership [OF c f ok, of alice fresh_id 9 fresh_id 7 fresh_id 8 fresh_id 9]
    unfolding v using v(4) by auto
qed

section \<open>Job applications\<close>

lemma write_job_find:
  "find (\<lambda>d. job_id d = job_id j) (db_jobs (write_job s j now)) =
     map_option (\<lambda>_. j\<lparr>job_updatedAt := now\<rparr>) (find (\<lambda>d. job_id d = job_id j) (db_jobs s))"
  unfolding write_job_def by (simp, rule find_update_first) simp

lemma apply_notification_valid:
  "length (user_name me) \<le> 50 \<Longrightarrow> length (job_title j) \<le> 100 \<Longrightarrow>
     notification_valid
       ((new_notification nid rcpt sndr ty ''New Job Application''
           (user_name me @ '' applied to your job: '' @ job_title j) now)
         \<lparr>notif_relatedJob := a, notif_relatedUser := b\<rparr>)"
  by (simp add: notification_valid_def new_notification_def)

text \<open>
  C6. The job is found under its id. If it is not active the apply route answers 400
  and the database is unchanged; if it is active and holds an application of the
  requester, likewise; in both cases the applications are therefore as before. If it is
  active, holds none and passes the validators of its schema, as every job the routes
  have stored does, the stored job has exactly one more application, the last one, which
  is the requester's; the route then answers 200 when the name of the requester is
  within the schema's bound of 50 characters. A job that does not pass the validators is
  not saved: the route answers 500 and the database is unchanged.
\<close>

theorem apply_job_guards:
  assumes cast: "cast_oid jidstr = Some jid"
    and found: "find (\<lambda>j. job_id j = jid) (db_jobs s) = Some j"
  shows "(\<not> job_isActive j \<longrightarrow>
            apply_job s me jidstr coverLetter resumeUrl aid nid now =
              (reply 400 ''Job posting is no longer active'', s)) \<and>
         (job_isActive j \<and> user_id me \<in> app_applicant ` set (job_applications j) \<longrightarrow>
            apply_job s me jidstr coverLetter resumeUrl aid nid now =
              (reply 400 ''You have already applied to this job'', s)) \<and>
         (job_isActive j \<and> user_id me \<notin> app_applicant ` set (job_applications j) \<and>
          job_valid j \<longrightarrow>
            (\<exists>j'. find (\<lambda>j. job_id j = jid)
                     (db_jobs (snd (apply_job s me jidstr coverLetter resumeUrl aid nid now)))
                     = Some j' \<and>
                  job_applications j' = job_applications j @
                    [\<lparr>app_id = aid, app_applicant = user_id me, app_coverLetter = coverLetter,
                      app_resumeUrl = resumeUrl, app_status = Applied,
                      app_appliedAt = now\<rparr>]) \<and>
            (length (user_name me) \<le> 50 \<longrightarrow>
               fst (apply_job s me jidstr coverLetter resumeUrl aid nid now) =
                 reply 200 ''Application submitted successfully'')) \<and>
         (job_isActive j \<and> user_id me \<notin> app_applicant ` set (job_applications j) \<and>
          \<not> job_valid j \<longrightarrow>
            apply_job s me jidstr coverLetter resumeUrl aid nid now =
              (reply 500 ''Error submitting application'', s))"
proof -
  have jid: "job_id j = jid" using find_holds [OF found] .
  have dup: "user_id me \<in> app_applicant ` set (job_applications j) \<longleftrightarrow>
      find (\<lambda>app. app_applicant app = user_id me) (job_applications j) \<noteq> None"
  proof
    assume "user_id me \<in> app_applicant ` set (job_applications j)"
    then obtain a where "a \<in> set (job_applications j)" "app_applicant a = user_id me"
      by (metis imageE)
    then show "find (\<lambda>app. app_applicant app = user_id me) (job_applications j) \<noteq> None"
      unfolding find_None_iff by blast
  next
    assume "find (\<lambda>app. app_applicant app = user_id me) (job_applications j) \<noteq> None"
    then obtain a where "a \<in> set (job_applications j)" "app_applicant a = user_id me"
      unfolding find_None_iff by blast
    then show "user_id me \<in> app_applicant ` set (job_applications j)"
      by (metis imageI)
  qed
  let ?j' = "j\<lparr>job_applications := job_applications j @
                    [\<lparr>app_id = aid, app_applicant = user_id me, app_coverLetter = coverLetter,
                      app_resumeUrl = resumeUrl, app_status = Applied,
                      app_appliedAt = now\<rparr>]\<rparr>"
  have stored: "find (\<lambda>d. job_id d = jid) (db_jobs (write_job s ?j' now)) =
      Some (?j'\<lparr>job_updatedAt := now\<rparr>)"
    using write_job_find [of ?j' s now] found jid by simp
  show ?thesis
  proof (intro conjI impI)
    assume "\<not> job_isActive j"
    then show "apply_job s me jidstr coverLetter resumeUrl aid nid now =
              (reply 400 ''Job posting is no longer active'', s)"
      using cast found by (simp add: apply_job_def)
  next
    assume "job_isActive j \<and> user_id me \<in> app_applicant ` set (job_applications j)"
    then show "apply_job s me jidstr coverLetter resumeUrl aid nid now =
              (reply 400 ''You have already applied to this job'', s)"
      using cast found dup by (auto simp: apply_job_def)
  next
    assume a: "job_isActive j \<and> user_id me \<notin> app_applicant ` set (job_applications j) \<and>
      job_valid j"
    then have none: "find (\<lambda>app. app_applicant app = user_id me) (job_applications j) = None"
      using dup by simp
    have v: "job_valid ?j'" using a by (simp add: job_valid_def)
    have "db_jobs (snd (apply_job s me jidstr coverLetter resumeUrl aid nid now)) =
        db_jobs (write_job s ?j' now)"
      using cast found a none v
      by (auto simp: apply_job_def Let_def save_job_def split: option.splits
          dest: save_notification_frame)
    then show "\<exists>j'. find (\<lambda>j. job_id j = jid)
                     (db_jobs (snd (apply_job s me jidstr coverLetter resumeUrl aid nid now)))
                     = Some j' \<and>
                  job_applications j' = job_applications j @
                    [\<lparr>app_id = aid, app_applicant = user_id me, app_coverLetter = coverLetter,
                      app_resumeUrl = resumeUrl, app_status = Applied,
                      app_appliedAt = now\<rparr>]"
      using stored by simp
  next
    assume a: "job_isActive j \<and> user_id me \<notin> app_applicant ` set (job_applications j) \<and>
      job_valid j"
      and b: "length (user_name me) \<le> 50"
    then have none: "find (\<lambda>app. app_applicant app = user_id me) (job_applications j) = None"
      using dup by simp
    have v: "job_valid ?j'" using a by (simp add: job_valid_def)
    have t: "length (job_title j) \<le> 100" using a by (simp add: job_valid_def)
    show "fst (apply_job s me jidstr coverLetter resumeUrl aid nid now) =
                 reply 200 ''Application submitted successfully''"
      using cast found a none b v apply_notification_valid [OF b t]
      by (simp add: apply_job_def Let_def save_job_def save_notification_def)
  next
    assume a: "job_isActive j \<and> user_id me \<notin> app_applicant ` set (job_applications j) \<and>
      \<not> job_valid j"
    then have none: "find (\<lambda>app. app_applicant app = user_id me) (job_applications j) = None"
      using dup by simp
    have v: "\<not> job_valid ?j'" using a by (simp add: job_valid_def)
    show "apply_job s me jidstr coverLetter resumeUrl aid nid now =
              (reply 500 ''Error submitting application'', s)"
      using cast found a none v
      by (simp add: apply_job_def Let_def save_job_def)
  qed
qed

theorem apply_job_guards_witness:
  "apply_job db_closed alice job1_id None None fresh_id fresh_id2 9 =
     (reply 400 ''Job posting is no longer active'', db_closed) \<and>
   apply_job db_hiring bob job1_id None None fresh_id fresh_id2 9 =
     (reply 400 ''You have already applied to this job'', db_hiring) \<and>
   (\<exists>j'. find (\<lambda>j. job_id j = job1_id)
            (db_jobs (snd (apply_job db_hiring alice job1_id (Some ''Me too'') None fresh_id
               fresh_id2 9))) = Some j' \<and>
          job_applications j' = job_applications job1 @
            [\<lparr>app_id = fresh_id, app_applicant = alice_id, app_coverLetter = Some ''Me too'',
              app_resumeUrl = None, app_status = Applied, app_appliedAt = 9\<rparr>]) \<and>
   fst (apply_job db_hiring alice job1_id (Some ''Me too'') None fresh_id fresh_id2 9) =
     reply 200 ''Application submitted successfully'' \<and>
   apply_job db_untitled alice job1_id None None fresh_id fresh_id2 9 =
     (reply 500 ''Error submitting application'', db_untitled)"
proof -
  have c: "cast_oid job1_id = Some job1_id"
    by (simp add: more_example_defs eval_defs)
  have f1: "find (\<lambda>j. job_id j = job1_id) (db_jobs db_closed) =
      Some (job1\<lparr>job_isActive := False\<rparr>)"
    and f2: "find (\<lambda>j. job_id j = job1_id) (db_jobs db_hiring) = Some job1"
    and f3: "find (\<lambda>j. job_id j = job1_id) (db_jobs db_untitled) =
      Some (job1\<lparr>job_title := []\<rparr>)"
    by (simp_all add: more_example_defs example_defs)
  have v: "\<not> job_isActive (job1\<lparr>job_isActive := False\<rparr>)" "job_isActive job1"
    "user_id bob \<in> app_applicant ` set (job_applications job1)"
    "user_id alice \<notin> app_applicant ` set (job_applications job1)"
    "length (user_name alice) \<le> 50" "job_valid job1"
    "user_id alice = alice_id"
    "job_isActive (job1\<lparr>job_title := []\<rparr>)" "\<not> job_valid (job1\<lparr>job_title := []\<rparr>)"
    "user_id alice \<notin> app_applicant ` set (job_applications (job1\<lparr>job_title := []\<rparr>))"
    by (simp_all add: more_example_defs example_defs job_valid_def)
  show ?thesis
    using apply_job_guards [OF c f1, of alice None None fresh_id fresh_id2 9]
      apply_job_guards [OF c f2, of bob None None fresh_id fresh_id2 9]
      apply_job_guards [OF c f2, of alice "Some ''Me too''" None fresh_id fresh_id2 9]
      apply_job_guards [OF c f3, of alice None None fresh_id fresh_id2 9]
      v
    by simp
qed

section \<open>The feed\<close>

lemma count_list_insort_key:
  "count_list (insort_key f x xs) y = count_list (x # xs) y"
  by (induction xs) auto

lemma count_list_sort_key: "count_list (sort_key f xs) y = count_list xs y"
  by (induction xs) (auto simp: count_list_insort_key)

lemma count_list_filter:
  "count_list (filter P xs) y = (if P y then count_list xs y else 0)"
  by (induction xs) auto

lemma foldr_insort_least:
  "\<forall>y \<in> set ys. k x < k y \<Longrightarrow>
     foldr (insort_key k) ys [x] = x # foldr (insort_key k) ys []"
  by (induction ys) auto

lemma sort_key_snoc_least:
  "\<forall>y \<in> set ys. k x < k y \<Longrightarrow> sort_key k (ys @ [x]) = x # sort_key k ys"
  by (simp add: sort_key_def foldr_insort_least)

lemma feed_query_count:
  "count_list (feed_query s ids) p =
     (if feed_filter ids p then count_list (db_posts s) p else 0)"
  by (simp add: feed_query_def feed_sort_def count_list_sort_key count_list_filter)

lemma feed_query_sorted:
  "sorted_wrt
     (\<lambda>p q. post_createdAt q < post_createdAt p \<or>
            (post_createdAt q = post_createdAt p \<and>
             post_engagementScore q \<le> post_engagementScore p))
     (feed_query s ids)"
proof -
  have "sorted (map (\<lambda>p. (- int (post_createdAt p), - int (post_engagementScore p)))
      (feed_query s ids))"
    unfolding feed_query_def feed_sort_def by (rule sorted_sort_key)
  then have "sorted_wrt
      (\<lambda>p q. (- int (post_createdAt p), - int (post_engagementScore p)) \<le>
             (- int (post_createdAt q), - int (post_engagementScore q)))
      (feed_query s ids)"
    by (simp add: sorted_map)
  then show ?thesis
    by (rule sorted_wrt_mono_rel [rotated]) auto
qed

lemma feed_filter_unfold:
  "feed_filter (cs @ fs @ [u]) p \<longleftrightarrow>
     (post_author p = u \<or> post_author p \<in> set cs \<or> post_author p \<in> set fs \<or>
      10 \<le> post_engagementScore p) \<and>
     (post_visibility p = Public \<or> post_visibility p = Connections)"
  by (auto simp: feed_filter_def)

lemma get_feed_page:
  assumes "find (\<lambda>u. user_id u = user_id me) (db_users s) = Some currentUser"
    and "1 \<le> page" and "1 \<le> limit"
  shows "get_feed s me page limit =
     Inr \<lparr>feed_posts = take limit (drop ((page - 1) * limit)
             (feed_query s (user_connections currentUser @ user_following currentUser @
                [user_id me]))),
          feed_totalPages = Some ((length (feed_query s (user_connections currentUser @
             user_following currentUser @ [user_id me])) + limit - 1) div limit),
          feed_currentPage = page\<rparr>"
  using assms by (simp add: get_feed_def window_def Let_def)

lemma hello_hashtags: "extractHashtags ''Hello #test'' = [''test'']"
  by (simp add: extractHashtags_def toLowerCase_def to_lower_def upper_case_def lower_case_def is_word_char_def)

lemma create_hello_post:
  "create_post s me ''Hello #test'' ''text'' imgs lnk (extractHashtags ''Hello #test'') pid now =
     (reply 201 ''Post created successfully'',
      s\<lparr>db_posts := db_posts s @
         [\<lparr>post_id = pid, post_author = user_id me, post_content = ''Hello #test'',
           post_type = ''text'', post_images = imgs, post_link = lnk,
           post_hashtags = [''test''], post_mentions = [], post_likes = [],
           post_comments = [], post_shares = [], post_visibility = Public,
           post_isReported = False, post_reportedBy = [], post_engagementScore = 0,
           post_createdAt = now, post_updatedAt = now\<rparr>]\<rparr>)"
  by (simp add: hello_hashtags create_post_def Let_def trim_def is_space_def post_valid_def
      post_pre_save_def comment_valid_def toLowerCase_def to_lower_def upper_case_def
      lower_case_def)

lemma feed_query_newest:
  assumes "feed_filter ids P" and "list_all (\<lambda>q. post_createdAt q < post_createdAt P) (db_posts s)"
  shows "feed_query (s\<lparr>db_posts := db_posts s @ [P]\<rparr>) ids = P # feed_query s ids"
proof -
  have "\<forall>q \<in> set (filter (feed_filter ids) (db_posts s)).
      (- int (post_createdAt P), - int (post_engagementScore P)) <
      (- int (post_createdAt q), - int (post_engagementScore q))"
    using assms(2) by (auto simp: list_all_iff)
  then show ?thesis
    using assms(1) by (simp add: feed_query_def feed_sort_def sort_key_snoc_least)
qed


text \<open>
  C7. The requester is a stored account and asks for a page from 1 on with a limit of at
  least 1. The feed is the list \<open>feed_query\<close>, of which the reply carries the window
  of the page. Every stored post occurs in the feed as often as it is stored if its
  author is the requester, a connection of the requester or an account the requester
  follows, or its engagement score is at least 10, and its visibility is public or
  connections; otherwise it does not occur. The feed is ordered by creation time
  descending and, among posts created at the same time, by engagement score descending.
  After the requester has created the text post "Hello #test" with the hashtags extracted
  from it, that post is stored with the hashtag list ["test"] and is in the requester's
  feed, whatever the requester's connections; when every post stored before is older it
  is the first post of the first page. Hashtag extraction from "Hello #test" yields
  ["test"].
\<close>

theorem feed_contents_and_order:
  assumes me: "find (\<lambda>u. user_id u = user_id me) (db_users s) = Some currentUser"
    and page: "1 \<le> page" and limit: "1 \<le> limit"
    and ids: "feedUserIds =
                user_connections currentUser @ user_following currentUser @ [user_id me]"
    and created: "s' = snd (create_post s me ''Hello #test'' ''text'' imgs lnk
                              (extractHashtags ''Hello #test'') pid now)"
  shows "get_feed s me page limit =
           Inr \<lparr>feed_posts = take limit (drop ((page - 1) * limit) (feed_query s feedUserIds)),
                feed_totalPages =
                  Some ((length (feed_query s feedUserIds) + limit - 1) div limit),
                feed_currentPage = page\<rparr> \<and>
         (\<forall>p. count_list (feed_query s feedUserIds) p =
               (if (post_author p = user_id me \<or>
                    post_author p \<in> set (user_connections currentUser) \<or>
                    post_author p \<in> set (user_following currentUser) \<or>
                    10 \<le> post_engagementScore p) \<and>
                   (post_visibility p = Public \<or> post_visibility p = Connections)
                then count_list (db_posts s) p else 0)) \<and>
         sorted_wrt
           (\<lambda>p q. post_createdAt q < post_createdAt p \<or>
                  (post_createdAt q = post_createdAt p \<and>
                   post_engagementScore q \<le> post_engagementScore p))
           (feed_query s feedUserIds) \<and>
         (\<exists>P. db_posts s' = db_posts s @ [P] \<and> post_id P = pid \<and>
              post_author P = user_id me \<and> post_content P = ''Hello #test'' \<and>
              post_type P = ''text'' \<and> post_hashtags P = [''test''] \<and>
              P \<in> set (feed_query s' feedUserIds) \<and>
              (\<exists>r. get_feed s' me page limit = Inr r \<and>
                   feed_posts r =
                     take limit (drop ((page - 1) * limit) (feed_query s' feedUserIds))) \<and>
              (list_all (\<lambda>q. post_createdAt q < now) (db_posts s) \<longrightarrow>
                 (\<exists>r. get_feed s' me 1 limit = Inr r \<and> feed_posts r \<noteq> [] \<and>
                      hd (feed_posts r) = P))) \<and>
         extractHashtags ''Hello #test'' = [''test'']"
proof -
  let ?P = "\<lparr>post_id = pid, post_author = user_id me, post_content = ''Hello #test'',
           post_type = ''text'', post_images = imgs, post_link = lnk,
           post_hashtags = [''test''], post_mentions = [], post_likes = [],
           post_comments = [], post_shares = [], post_visibility = Public,
           post_isReported = False, post_reportedBy = [], post_engagementScore = 0,
           post_createdAt = now, post_updatedAt = now\<rparr>"
  have s': "s' = s\<lparr>db_posts := db_posts s @ [?P]\<rparr>"
    unfolding created create_hello_post by simp
  have me': "find (\<lambda>u. user_id u = user_id me) (db_users s') = Some currentUser"
    using me by (simp add: s')
  have cand: "feed_filter feedUserIds ?P"
    by (simp add: ids feed_filter_unfold)
  have member: "?P \<in> set (feed_query s' feedUserIds)"
    using cand by (simp add: feed_query_def feed_sort_def s')
  have first: "\<exists>r. get_feed s' me 1 limit = Inr r \<and> feed_posts r \<noteq> [] \<and>
      hd (feed_posts r) = ?P"
    if older: "list_all (\<lambda>q. post_createdAt q < now) (db_posts s)"
  proof -
    have "feed_query s' feedUserIds = ?P # feed_query s feedUserIds"
      unfolding s' using cand older by (intro feed_query_newest) simp_all
    then show ?thesis
      using get_feed_page [OF me' order_refl limit] limit
      by (cases limit) (simp_all add: ids)
  qed
  have scenario: "\<exists>P. db_posts s' = db_posts s @ [P] \<and> post_id P = pid \<and>
              post_author P = user_id me \<and> post_content P = ''Hello #test'' \<and>
              post_type P = ''text'' \<and> post_hashtags P = [''test''] \<and>
              P \<in> set (feed_query s' feedUserIds) \<and>
              (\<exists>r. get_feed s' me page limit = Inr r \<and>
                   feed_posts r =
                     take limit (drop ((page - 1) * limit) (feed_query s' feedUserIds))) \<and>
              (list_all (\<lambda>q. post_createdAt q < now) (db_posts s) \<longrightarrow>
                 (\<exists>r. get_feed s' me 1 limit = Inr r \<and> feed_posts r \<noteq> [] \<and>
                      hd (feed_posts r) = P))"
    using member first get_feed_page [OF me' page limit]
    by (intro exI [of _ ?P]) (simp add: s' ids)
  show ?thesis
    using get_feed_page [OF me page limit] feed_query_count [of s feedUserIds]
      feed_query_sorted [of s feedUserIds] scenario hello_hashtags
    by (simp add: ids feed_filter_unfold)
qed

theorem feed_contents_and_order_witness:
  "\<exists>r P. get_feed
           (snd (create_post db_posted bob ''Hello #test'' ''text'' [] None
                   (extractHashtags ''Hello #test'') fresh_id 9)) bob 1 10 = Inr r \<and>
         feed_posts r \<noteq> [] \<and> hd (feed_posts r) = P \<and> post_id P = fresh_id \<and>
         post_author P = bob_id \<and> post_content P = ''Hello #test'' \<and>
         post_hashtags P = [''test''] \<and> user_connections bob = []"
proof -
  have 1: "find (\<lambda>u. user_id u = user_id bob) (db_users db_posted) = Some bob"
    by (simp add: example_defs more_example_defs)
  have 2: "list_all (\<lambda>q. post_createdAt q < 9) (db_posts db_posted)"
    by (simp add: example_defs more_example_defs)
  have 3: "user_id bob = bob_id" "user_connections bob = []"
    by (simp_all add: example_defs)
  show ?thesis
    using feed_contents_and_order [OF 1 order_refl, of 10 _ _ "[]" None fresh_id 9,
        OF _ refl refl] 2 3
    by auto
qed

end
